theory Spec2Isabelle
  imports Complex_Main "HOL-Library.Multiset"
begin

section \<open>Numbers\<close>

text \<open>
  The TypeScript \<^verbatim>\<open>number\<close> is an IEEE 754 binary64 value: a finite double,
  \<^verbatim>\<open>Infinity\<close>, \<^verbatim>\<open>-Infinity\<close> or \<^verbatim>\<open>NaN\<close>. A finite double is carried as
  the real number it denotes; the sign of zero is not modelled (\<^verbatim>\<open>-0\<close> is \<^verbatim>\<open>0\<close>, and a
  zero divisor is read as \<^verbatim>\<open>+0\<close>).
\<close>

datatype jsnum = Num real | PInf | NInf | NaN

text \<open>
  The finite doubles are the numbers \<open>m * 2^e\<close> with an integer \<open>m\<close>, \<open>|m| < 2^53\<close>, and
  \<open>-1074 \<le> e \<le> 971\<close>; with \<open>k = e + 1074\<close> they are the multiples \<open>m * 2^k\<close> of the least
  positive double \<open>2^-1074\<close>. The largest one is \<open>(2^53 - 1) * 2^971\<close>.
\<close>

definition tiny :: real where
  "tiny = 1 / 2 ^ 1074"

definition dbl :: "real set" where
  "dbl = {real_of_int m * 2 ^ k * tiny | m k. \<bar>m\<bar> < 2 ^ 53 \<and> k \<le> (2045::nat)}"

definition maxDbl :: real where
  "maxDbl = (2 ^ 53 - 1) * 2 ^ 2045 * tiny"

text \<open>
  Rounding to nearest, ties to even: the result of an arithmetic operation is the double
  nearest to the exact result. Between the two neighbouring doubles \<open>below x\<close> and
  \<open>above x\<close> the nearer one is taken, and at the midpoint the one that is an even multiple
  of their distance (the one whose last significand bit is 0). A result of magnitude
  \<open>2^1024 - 2^970\<close> (the midpoint between the largest double and \<open>2^1024\<close>) or more
  overflows to an infinity.
\<close>

definition overflowAt :: real where
  "overflowAt = (2 ^ 54 - 1) * 2 ^ 2044 * tiny"

definition below :: "real \<Rightarrow> real" where
  "below x = Max {d \<in> dbl. d \<le> x}"

definition above :: "real \<Rightarrow> real" where
  "above x = Min {d \<in> dbl. x \<le> d}"

definition evenAt :: "real \<Rightarrow> real \<Rightarrow> bool" where
  "evenAt d s = (\<exists>k::int. d = 2 * real_of_int k * s)"

definition roundTiesToEven :: "real \<Rightarrow> real" where
  "roundTiesToEven x = (let lo = below x; hi = above x in
     if x - lo < hi - x then lo
     else if hi - x < x - lo then hi
     else if evenAt lo (hi - lo) then lo else hi)"

definition rnd :: "real \<Rightarrow> jsnum" where
  "rnd x = (if overflowAt \<le> x then PInf
     else if x \<le> - overflowAt then NInf
     else if maxDbl < x then Num maxDbl
     else if x < - maxDbl then Num (- maxDbl)
     else Num (roundTiesToEven x))"

text \<open>The comparison \<^verbatim>\<open>x <= y\<close>; it is false when an operand is \<^verbatim>\<open>NaN\<close>.\<close>

fun js_le :: "jsnum \<Rightarrow> jsnum \<Rightarrow> bool" where
  "js_le NaN _ = False"
| "js_le _ NaN = False"
| "js_le NInf _ = True"
| "js_le _ PInf = True"
| "js_le (Num a) (Num b) = (a \<le> b)"
| "js_le _ _ = False"

text \<open>The finite results in one formula: the argument is first cut to the range of the doubles.\<close>

definition clamp :: "real \<Rightarrow> real" where
  "clamp x = max (- maxDbl) (min maxDbl x)"

subsection \<open>Arithmetic\<close>

text \<open>
  The operators \<^verbatim>\<open>+\<close>, \<^verbatim>\<open>-\<close>, \<^verbatim>\<open>*\<close>, \<^verbatim>\<open>/\<close> and \<^verbatim>\<open>Math.sqrt\<close> on
  numbers: on finite operands the exact result, rounded; with an infinite operand or
  \<^verbatim>\<open>NaN\<close> the result that IEEE 754 gives.
\<close>

fun sign_of :: "jsnum \<Rightarrow> real" where
  "sign_of (Num a) = sgn a"
| "sign_of PInf = 1"
| "sign_of NInf = - 1"
| "sign_of NaN = 0"

definition inf_of_sign :: "real \<Rightarrow> jsnum" where
  "inf_of_sign s = (if 0 < s then PInf else if s < 0 then NInf else NaN)"

fun js_neg :: "jsnum \<Rightarrow> jsnum" where
  "js_neg (Num a) = Num (- a)"
| "js_neg PInf = NInf"
| "js_neg NInf = PInf"
| "js_neg NaN = NaN"

fun js_add :: "jsnum \<Rightarrow> jsnum \<Rightarrow> jsnum" where
  "js_add (Num a) (Num b) = rnd (a + b)"
| "js_add NaN _ = NaN"
| "js_add _ NaN = NaN"
| "js_add PInf NInf = NaN"
| "js_add NInf PInf = NaN"
| "js_add PInf _ = PInf"
| "js_add _ PInf = PInf"
| "js_add NInf _ = NInf"
| "js_add _ NInf = NInf"

definition js_sub :: "jsnum \<Rightarrow> jsnum \<Rightarrow> jsnum" where
  "js_sub x y = js_add x (js_neg y)"

fun js_mul :: "jsnum \<Rightarrow> jsnum \<Rightarrow> jsnum" where
  "js_mul (Num a) (Num b) = rnd (a * b)"
| "js_mul NaN _ = NaN"
| "js_mul _ NaN = NaN"
| "js_mul x y = inf_of_sign (sign_of x * sign_of y)"

text \<open>The power \<^verbatim>\<open>x ** 2\<close> is taken as the rounded product \<^verbatim>\<open>x * x\<close>.\<close>

definition js_pow2 :: "jsnum \<Rightarrow> jsnum" where
  "js_pow2 x = js_mul x x"

fun js_div :: "jsnum \<Rightarrow> jsnum \<Rightarrow> jsnum" where
  "js_div (Num a) (Num b) = (if b = 0 then inf_of_sign (sgn a) else rnd (a / b))"
| "js_div NaN _ = NaN"
| "js_div _ NaN = NaN"
| "js_div (Num a) _ = Num 0"
| "js_div x (Num b) = inf_of_sign (sign_of x * (if b < 0 then - 1 else 1))"
| "js_div _ _ = NaN"

fun js_sqrt :: "jsnum \<Rightarrow> jsnum" where
  "js_sqrt (Num a) = (if a < 0 then NaN else rnd (sqrt a))"
| "js_sqrt PInf = PInf"
| "js_sqrt NInf = NaN"
| "js_sqrt NaN = NaN"

text \<open>
  \<^verbatim>\<open>Math.log\<close>: the language fixes its value at \<^verbatim>\<open>NaN\<close>, negative numbers, 0, 1 and
  \<^verbatim>\<open>Infinity\<close>, and everywhere else leaves it to the implementation as an
  approximation of the natural logarithm. The approximation is the parameter \<open>lg\<close> of
  the functions that use it; its value is a double, so it is rounded.
\<close>

fun js_log :: "(real \<Rightarrow> real) \<Rightarrow> jsnum \<Rightarrow> jsnum" where
  "js_log lg (Num a) =
     (if a < 0 then NaN else if a = 0 then NInf else if a = 1 then Num 0 else rnd (lg a))"
| "js_log lg PInf = PInf"
| "js_log lg NInf = NaN"
| "js_log lg NaN = NaN"

text \<open>\<^verbatim>\<open>Math.floor\<close>, the comparison \<^verbatim>\<open>x < y\<close> and the equality \<^verbatim>\<open>x === y\<close> on numbers.\<close>

fun js_floor :: "jsnum \<Rightarrow> jsnum" where
  "js_floor (Num a) = Num (real_of_int \<lfloor>a\<rfloor>)"
| "js_floor x = x"

fun js_lt :: "jsnum \<Rightarrow> jsnum \<Rightarrow> bool" where
  "js_lt NaN _ = False"
| "js_lt _ NaN = False"
| "js_lt (Num a) (Num b) = (a < b)"
| "js_lt PInf _ = False"
| "js_lt _ PInf = True"
| "js_lt NInf NInf = False"
| "js_lt NInf _ = True"
| "js_lt _ NInf = False"

definition js_eq :: "jsnum \<Rightarrow> jsnum \<Rightarrow> bool" where
  "js_eq x y = (x \<noteq> NaN \<and> x = y)"

text \<open>\<^verbatim>\<open>x === 0\<close>, \<^verbatim>\<open>Number.isFinite\<close>, and the values that are numbers of the language.\<close>

fun is_zero :: "jsnum \<Rightarrow> bool" where
  "is_zero (Num a) = (a = 0)"
| "is_zero _ = False"

fun isFinite :: "jsnum \<Rightarrow> bool" where
  "isFinite (Num a) = True"
| "isFinite _ = False"

fun isDouble :: "jsnum \<Rightarrow> bool" where
  "isDouble (Num a) = (a \<in> dbl)"
| "isDouble _ = True"

text \<open>
  \<^verbatim>\<open>Math.min(...values)\<close> and \<^verbatim>\<open>Math.max(...values)\<close>: they start from
  \<^verbatim>\<open>Infinity\<close> and \<^verbatim>\<open>-Infinity\<close> (their value for no argument), and are
  \<^verbatim>\<open>NaN\<close> as soon as one argument is.
\<close>

definition js_min2 :: "jsnum \<Rightarrow> jsnum \<Rightarrow> jsnum" where
  "js_min2 lowest x = (if lowest = NaN \<or> x = NaN then NaN else if js_lt x lowest then x else lowest)"

definition js_max2 :: "jsnum \<Rightarrow> jsnum \<Rightarrow> jsnum" where
  "js_max2 highest x = (if highest = NaN \<or> x = NaN then NaN else if js_lt highest x then x else highest)"

definition math_min :: "jsnum list \<Rightarrow> jsnum" where
  "math_min xs = foldl js_min2 PInf xs"

definition math_max :: "jsnum list \<Rightarrow> jsnum" where
  "math_max xs = foldl js_max2 NInf xs"

text \<open>The operator \<^verbatim>\<open>??\<close>: the default replaces an absent value.\<close>

fun orElse :: "'a option \<Rightarrow> 'a \<Rightarrow> 'a" where
  "orElse None d = d"
| "orElse (Some v) d = v"

section \<open>Data model (store/analysisStore.ts)\<close>

text \<open>
  A \<^verbatim>\<open>Record<string, T>\<close> of the store is a plain object. Reading \<^verbatim>\<open>table[label]\<close>
  gives the table's own property when it has one, \<^verbatim>\<open>undefined\<close> when the label is
  unknown to the table and to \<^verbatim>\<open>Object.prototype\<close>, and otherwise the member that the
  table inherits from \<^verbatim>\<open>Object.prototype\<close> (the function \<^verbatim>\<open>Object\<close> for the label
  \<^verbatim>\<open>constructor\<close>): a value that is neither a number nor an array, and not
  \<^verbatim>\<open>undefined\<close>. Used as a number such a member is \<^verbatim>\<open>NaN\<close>.
\<close>

datatype 'a member = Own 'a | Inherited

definition objectPrototype :: "string list" where
  "objectPrototype =
    [''constructor'', ''hasOwnProperty'', ''isPrototypeOf'', ''propertyIsEnumerable'',
     ''toLocaleString'', ''toString'', ''valueOf'', ''__proto__'', ''__defineGetter__'',
     ''__defineSetter__'', ''__lookupGetter__'', ''__lookupSetter__'']"

definition getProperty :: "(string \<rightharpoonup> 'a) \<Rightarrow> string \<Rightarrow> 'a member option" where
  "getProperty table label =
    (case table label of
       Some v \<Rightarrow> Some (Own v)
     | None \<Rightarrow> if label \<in> set objectPrototype then Some Inherited else None)"

fun toNumber :: "jsnum member \<Rightarrow> jsnum" where
  "toNumber (Own v) = v"
| "toNumber Inherited = NaN"

text \<open>
  An item. The raw attributes are what the importer stores
  (components/sections/DataImport.tsx: \<^verbatim>\<open>parseFloat(row['Unit cost']) || 0\<close>, which keeps
  \<^verbatim>\<open>Infinity\<close>). The four mapped scores hold whatever the table lookup gave.
\<close>

datatype abc = ClassA | ClassB | ClassC

record InventoryItem =
  item_id :: jsnum
  Risk :: string
  Demand_fluctuation :: string
  Average_stock :: jsnum
  Daily_usage :: jsnum
  Unit_cost :: jsnum
  Lead_time :: jsnum
  Consignment_stock :: string
  Unit_size :: string
  Risk_Score :: "jsnum member option"
  Fluctuation_Score :: "jsnum member option"
  Consignment_Score :: "jsnum member option"
  Size_Score :: "jsnum member option"
  Criticality_Agg :: "jsnum option"
  Demand_Agg :: "jsnum option"
  Supply_Agg :: "jsnum option"
  TOPSIS_Score :: "jsnum option"
  Fuzzy_TOPSIS_Score :: "jsnum option"
  ML_Predicted_Class :: "string option"
  Class :: "abc option"
  Fuzzy_Class :: "abc option"

record MappingTable =
  map_Risk :: "string \<rightharpoonup> jsnum"
  map_Demand_fluctuation :: "string \<rightharpoonup> jsnum"
  map_Consignment_stock :: "string \<rightharpoonup> jsnum"
  map_Unit_size :: "string \<rightharpoonup> jsnum"

record AggregationWeights =
  Criticality_Risk :: jsnum
  Criticality_Fluctuation :: jsnum
  Demand_DailyUsage :: jsnum
  Demand_AverageStock :: jsnum
  Supply_LeadTime :: jsnum
  Supply_Consignment :: jsnum

type_synonym tfn = "jsnum \<times> jsnum \<times> jsnum"

record FuzzyTFN =
  tfn_Risk :: "string \<rightharpoonup> tfn"
  tfn_Demand_fluctuation :: "string \<rightharpoonup> tfn"
  tfn_Consignment_stock :: "string \<rightharpoonup> tfn"
  tfn_Unit_size :: "string \<rightharpoonup> tfn"

record EntropyWeights =
  w_Criticality_Agg :: jsnum
  w_Demand_Agg :: jsnum
  w_Supply_Agg :: jsnum
  w_Unit_cost :: jsnum
  w_Size_Score :: jsnum

record ABCThresholds =
  thr_A :: jsnum
  thr_B :: jsnum
  thr_C :: jsnum

section \<open>The calculations (lib/calculations.ts)\<close>

text \<open>An array with the index of each element, as the callbacks \<^verbatim>\<open>(x, idx) => ...\<close> see it.\<close>

definition indexed :: "'a list \<Rightarrow> ('a \<times> nat) list" where
  "indexed xs = zip xs [0 ..< length xs]"

text \<open>
  \<open>getValue\<close> returns the field as it is; each of its callers uses the result in
  arithmetic only, where an inherited member counts as \<^verbatim>\<open>NaN\<close>, so the conversion is
  made here.
\<close>

definition getValue :: "InventoryItem \<Rightarrow> string \<Rightarrow> jsnum" where
  "getValue item key =
    (if key = ''Risk_Score'' then toNumber (orElse (Risk_Score item) (Own (Num 0)))
     else if key = ''Fluctuation_Score'' then toNumber (orElse (Fluctuation_Score item) (Own (Num 0)))
     else if key = ''Consignment_Score'' then toNumber (orElse (Consignment_Score item) (Own (Num 0)))
     else if key = ''Size_Score'' then toNumber (orElse (Size_Score item) (Own (Num 0)))
     else if key = ''Criticality_Agg'' then orElse (Criticality_Agg item) (Num 0)
     else if key = ''Demand_Agg'' then orElse (Demand_Agg item) (Num 0)
     else if key = ''Supply_Agg'' then orElse (Supply_Agg item) (Num 0)
     else if key = ''Unit cost'' then Unit_cost item
     else if key = ''Average stock'' then Average_stock item
     else if key = ''Daily usage'' then Daily_usage item
     else if key = ''Lead time'' then Lead_time item
     else if key = ''TOPSIS_Score'' then orElse (TOPSIS_Score item) (Num 0)
     else if key = ''Fuzzy_TOPSIS_Score'' then orElse (Fuzzy_TOPSIS_Score item) (Num 0)
     else Num 0)"

definition minMaxNormalize :: "jsnum list \<Rightarrow> jsnum list" where
  "minMaxNormalize values =
    (let mn = math_min values; mx = math_max values in
     if js_eq mx mn then map (\<lambda>_. Num (1 / 2)) values
     else map (\<lambda>v. js_div (js_sub v mn) (js_sub mx mn)) values)"

definition applyMappings :: "InventoryItem list \<Rightarrow> MappingTable \<Rightarrow> InventoryItem list" where
  "applyMappings data mappings =
    map (\<lambda>item. item
      \<lparr> Risk_Score := Some (orElse (getProperty (map_Risk mappings) (Risk item)) (Own (Num 0))),
        Fluctuation_Score := Some (orElse
          (getProperty (map_Demand_fluctuation mappings) (Demand_fluctuation item)) (Own (Num 0))),
        Consignment_Score := Some (orElse
          (getProperty (map_Consignment_stock mappings) (Consignment_stock item)) (Own (Num 0))),
        Size_Score := Some (orElse
          (getProperty (map_Unit_size mappings) (Unit_size item)) (Own (Num 0))) \<rparr>) data"

definition calculateAggregations ::
  "InventoryItem list \<Rightarrow> AggregationWeights \<Rightarrow> InventoryItem list" where
  "calculateAggregations data weights =
    (let dailyUsage = map Daily_usage data;
         avgStock = map Average_stock data;
         leadTime = map Lead_time data;
         normDailyUsage = minMaxNormalize dailyUsage;
         normAvgStock = minMaxNormalize avgStock;
         normLeadTime = minMaxNormalize leadTime
     in map (\<lambda>(item, idx). item
          \<lparr> Criticality_Agg := Some (js_add
              (js_mul (Criticality_Risk weights)
                 (toNumber (orElse (Risk_Score item) (Own (Num 0)))))
              (js_mul (Criticality_Fluctuation weights)
                 (toNumber (orElse (Fluctuation_Score item) (Own (Num 0)))))),
            Demand_Agg := Some (js_add
              (js_mul (Demand_DailyUsage weights) (normDailyUsage ! idx))
              (js_mul (Demand_AverageStock weights) (normAvgStock ! idx))),
            Supply_Agg := Some (js_add
              (js_mul (Supply_LeadTime weights) (normLeadTime ! idx))
              (js_mul (Supply_Consignment weights)
                 (toNumber (orElse (Consignment_Score item) (Own (Num 0)))))) \<rparr>)
        (indexed data))"

subsection \<open>calculateEntropyWeights\<close>

text \<open>
  The constant \<^verbatim>\<open>0.0001\<close> of the source is the double nearest to \<open>1/10000\<close>. The
  objects \<^verbatim>\<open>matrices\<close>, \<^verbatim>\<open>proportions\<close>, \<^verbatim>\<open>entropy\<close> and \<^verbatim>\<open>diversity\<close> of the
  source, keyed by criterion, are functions of the criterion.
\<close>

definition criteria :: "string list" where
  "criteria = [''Criticality_Agg'', ''Demand_Agg'', ''Supply_Agg'', ''Unit cost'', ''Size_Score'']"

definition epsilon :: jsnum where
  "epsilon = rnd (1 / 10000)"

definition entropyColumn :: "InventoryItem list \<Rightarrow> string \<Rightarrow> jsnum list" where
  "entropyColumn data c =
    map (\<lambda>v. js_add v epsilon) (minMaxNormalize (map (\<lambda>d. getValue d c) data))"

definition proportions :: "InventoryItem list \<Rightarrow> string \<Rightarrow> jsnum list" where
  "proportions data c =
    (let sum = foldl (\<lambda>a b. js_add a b) (Num 0) (entropyColumn data c) in
     map (\<lambda>v. js_div v sum) (entropyColumn data c))"

definition entropy :: "(real \<Rightarrow> real) \<Rightarrow> InventoryItem list \<Rightarrow> string \<Rightarrow> jsnum" where
  "entropy lg data c =
    (let n = length data;
         k = js_div (Num 1) (js_log lg (Num (real n)))
     in js_mul (js_neg k)
          (foldl (\<lambda>sum p. js_add sum (js_mul p (js_log lg p))) (Num 0) (proportions data c)))"

definition diversity :: "(real \<Rightarrow> real) \<Rightarrow> InventoryItem list \<Rightarrow> string \<Rightarrow> jsnum" where
  "diversity lg data c = js_sub (Num 1) (entropy lg data c)"

definition totalDiversity :: "(real \<Rightarrow> real) \<Rightarrow> InventoryItem list \<Rightarrow> jsnum" where
  "totalDiversity lg data = foldl (\<lambda>a b. js_add a b) (Num 0) (map (diversity lg data) criteria)"

definition calculateEntropyWeights :: "(real \<Rightarrow> real) \<Rightarrow> InventoryItem list \<Rightarrow> EntropyWeights" where
  "calculateEntropyWeights lg data =
    \<lparr> w_Criticality_Agg = js_div (diversity lg data ''Criticality_Agg'') (totalDiversity lg data),
      w_Demand_Agg = js_div (diversity lg data ''Demand_Agg'') (totalDiversity lg data),
      w_Supply_Agg = js_div (diversity lg data ''Supply_Agg'') (totalDiversity lg data),
      w_Unit_cost = js_div (diversity lg data ''Unit cost'') (totalDiversity lg data),
      w_Size_Score = js_div (diversity lg data ''Size_Score'') (totalDiversity lg data) \<rparr>"

subsection \<open>calculateTOPSIS\<close>

text \<open>
  The local constants of \<^verbatim>\<open>calculateTOPSIS\<close> are definitions of their own, so that
  the claims can speak about them; the two distances of the item at an index are
  \<open>dBest\<close> and \<open>dWorst\<close>.
\<close>

definition benefitCriteria :: "string list" where
  "benefitCriteria = [''Criticality_Agg'', ''Demand_Agg'', ''Size_Score'']"

definition decisionMatrix :: "InventoryItem list \<Rightarrow> jsnum list list" where
  "decisionMatrix data = map (\<lambda>item. map (\<lambda>c. getValue item c) criteria) data"

definition colSums :: "jsnum list list \<Rightarrow> jsnum list" where
  "colSums matrix =
    map (\<lambda>(_, i). js_sqrt (foldl (\<lambda>sum row. js_add sum (js_pow2 (row ! i))) (Num 0) matrix))
      (indexed criteria)"

definition normalizedMatrix :: "InventoryItem list \<Rightarrow> jsnum list list" where
  "normalizedMatrix data =
    (let matrix = decisionMatrix data in
     map (\<lambda>row. map (\<lambda>(val, i).
            if is_zero (colSums matrix ! i) then Num 0 else js_div val (colSums matrix ! i))
       (indexed row)) matrix)"

definition weightValues :: "EntropyWeights \<Rightarrow> jsnum list" where
  "weightValues weights =
    [w_Criticality_Agg weights, w_Demand_Agg weights, w_Supply_Agg weights,
     w_Unit_cost weights, w_Size_Score weights]"

definition weightedMatrix :: "InventoryItem list \<Rightarrow> EntropyWeights \<Rightarrow> jsnum list list" where
  "weightedMatrix data weights =
    map (\<lambda>row. map (\<lambda>(val, i). js_mul val (weightValues weights ! i)) (indexed row))
      (normalizedMatrix data)"

definition idealBest :: "jsnum list list \<Rightarrow> jsnum list" where
  "idealBest wm =
    map (\<lambda>(c, i). let col = map (\<lambda>row. row ! i) wm in
          if c \<in> set benefitCriteria then math_max col else math_min col) (indexed criteria)"

definition idealWorst :: "jsnum list list \<Rightarrow> jsnum list" where
  "idealWorst wm =
    map (\<lambda>(c, i). let col = map (\<lambda>row. row ! i) wm in
          if c \<in> set benefitCriteria then math_min col else math_max col) (indexed criteria)"

definition distanceTo :: "jsnum list \<Rightarrow> jsnum list \<Rightarrow> jsnum" where
  "distanceTo ideal row =
    js_sqrt (foldl (\<lambda>sum (val, i). js_add sum (js_pow2 (js_sub val (ideal ! i)))) (Num 0)
      (indexed row))"

definition dBest :: "InventoryItem list \<Rightarrow> EntropyWeights \<Rightarrow> nat \<Rightarrow> jsnum" where
  "dBest data weights idx =
    distanceTo (idealBest (weightedMatrix data weights)) (weightedMatrix data weights ! idx)"

definition dWorst :: "InventoryItem list \<Rightarrow> EntropyWeights \<Rightarrow> nat \<Rightarrow> jsnum" where
  "dWorst data weights idx =
    distanceTo (idealWorst (weightedMatrix data weights)) (weightedMatrix data weights ! idx)"

definition calculateTOPSIS :: "InventoryItem list \<Rightarrow> EntropyWeights \<Rightarrow> InventoryItem list" where
  "calculateTOPSIS data weights =
    map (\<lambda>(item, idx).
        let score = js_div (dWorst data weights idx)
                      (js_add (dBest data weights idx) (dWorst data weights idx))
        in item \<lparr> TOPSIS_Score := Some score \<rparr>) (indexed data)"

subsection \<open>classifyABC\<close>

text \<open>
  \<^verbatim>\<open>Array.prototype.sort\<close> with a comparator. When the comparator is consistent on the
  elements (ECMAScript: it never returns \<^verbatim>\<open>NaN\<close>, and its three relations
  \<open>< 0\<close>, \<open>= 0\<close>, \<open>> 0\<close> are reflexive, symmetric and transitive as an ordering
  requires) the result is the one stable arrangement, which insertion from the right
  computes. Otherwise the language leaves the order to the implementation: the result is
  some arrangement of the same elements, here the one that the parameter \<open>impl\<close> gives
  (the input order where \<open>impl\<close> does not give an arrangement of the elements).
\<close>

definition compareFn :: "string \<Rightarrow> InventoryItem \<Rightarrow> InventoryItem \<Rightarrow> jsnum" where
  "compareFn scoreField a b = js_sub (getValue b scoreField) (getValue a scoreField)"

definition consistentComparator :: "('a \<Rightarrow> 'a \<Rightarrow> jsnum) \<Rightarrow> 'a list \<Rightarrow> bool" where
  "consistentComparator cmp xs =
    ((\<forall>a \<in> set xs. \<forall>b \<in> set xs. cmp a b \<noteq> NaN) \<and>
     (\<forall>a \<in> set xs. is_zero (cmp a a)) \<and>
     (\<forall>a \<in> set xs. \<forall>b \<in> set xs. is_zero (cmp a b) \<longrightarrow> is_zero (cmp b a)) \<and>
     (\<forall>a \<in> set xs. \<forall>b \<in> set xs. \<forall>c \<in> set xs.
        is_zero (cmp a b) \<and> is_zero (cmp b c) \<longrightarrow> is_zero (cmp a c)) \<and>
     (\<forall>a \<in> set xs. \<forall>b \<in> set xs. \<forall>c \<in> set xs.
        js_lt (cmp a b) (Num 0) \<and> js_lt (cmp b c) (Num 0) \<longrightarrow> js_lt (cmp a c) (Num 0)) \<and>
     (\<forall>a \<in> set xs. \<forall>b \<in> set xs. \<forall>c \<in> set xs.
        js_lt (Num 0) (cmp a b) \<and> js_lt (Num 0) (cmp b c) \<longrightarrow> js_lt (Num 0) (cmp a c)))"

fun insertSorted :: "('a \<Rightarrow> 'a \<Rightarrow> jsnum) \<Rightarrow> 'a \<Rightarrow> 'a list \<Rightarrow> 'a list" where
  "insertSorted cmp x [] = [x]"
| "insertSorted cmp x (y # ys) =
    (if js_lt (Num 0) (cmp x y) then y # insertSorted cmp x ys else x # y # ys)"

definition engineOrder :: "('a list \<Rightarrow> 'a list) \<Rightarrow> 'a list \<Rightarrow> 'a list" where
  "engineOrder impl xs = (if mset (impl xs) = mset xs then impl xs else xs)"

definition sortBy ::
  "(('a \<Rightarrow> 'a \<Rightarrow> jsnum) \<Rightarrow> 'a list \<Rightarrow> 'a list) \<Rightarrow> ('a \<Rightarrow> 'a \<Rightarrow> jsnum) \<Rightarrow> 'a list \<Rightarrow> 'a list" where
  "sortBy impl cmp xs =
    (if consistentComparator cmp xs then foldr (insertSorted cmp) xs []
     else engineOrder (impl cmp) xs)"

definition classOf :: "jsnum \<Rightarrow> jsnum \<Rightarrow> nat \<Rightarrow> abc" where
  "classOf idxA idxB idx =
    (if js_lt (Num (real idx)) idxA then ClassA
     else if js_lt (Num (real idx)) idxB then ClassB else ClassC)"

definition idxA :: "nat \<Rightarrow> ABCThresholds \<Rightarrow> jsnum" where
  "idxA n thresholds = js_floor (js_div (js_mul (Num (real n)) (thr_A thresholds)) (Num 100))"

definition idxB :: "nat \<Rightarrow> ABCThresholds \<Rightarrow> jsnum" where
  "idxB n thresholds =
    js_floor (js_div (js_mul (Num (real n)) (js_add (thr_A thresholds) (thr_B thresholds)))
      (Num 100))"

definition classifyABC ::
  "((InventoryItem \<Rightarrow> InventoryItem \<Rightarrow> jsnum) \<Rightarrow> InventoryItem list \<Rightarrow> InventoryItem list) \<Rightarrow>
   InventoryItem list \<Rightarrow> ABCThresholds \<Rightarrow> string \<Rightarrow> InventoryItem list" where
  "classifyABC impl data thresholds scoreField =
    (let sorted = sortBy impl (compareFn scoreField) data;
         n = length sorted
     in map (\<lambda>(item, idx).
          if scoreField = ''TOPSIS_Score''
          then item \<lparr> Class := Some (classOf (idxA n thresholds) (idxB n thresholds) idx) \<rparr>
          else item \<lparr> Fuzzy_Class := Some (classOf (idxA n thresholds) (idxB n thresholds) idx) \<rparr>)
        (indexed sorted))"

subsection \<open>calculateFuzzyTOPSIS\<close>

text \<open>
  A fuzzy value that is not an array has no method \<^verbatim>\<open>map\<close>: the call
  \<^verbatim>\<open>tfnVal.map(...)\<close> throws a \<^verbatim>\<open>TypeError\<close>, which ends \<open>calculateFuzzyTOPSIS\<close>.
  The \<^verbatim>\<open>forEach\<close> over the criteria is \<open>sqSums\<close>, with its two accumulators as a
  pair, and the \<^verbatim>\<open>map\<close> over the items is \<open>mapE\<close>.
\<close>

datatype error = TypeError

record FuzzyValues =
  fz_Risk :: "tfn member"
  fz_Demand_fluctuation :: "tfn member"
  fz_Consignment_stock :: "tfn member"
  fz_Unit_size :: "tfn member"

definition applyFuzzyMappings ::
  "InventoryItem list \<Rightarrow> FuzzyTFN \<Rightarrow> (InventoryItem \<times> FuzzyValues) list" where
  "applyFuzzyMappings data t =
    map (\<lambda>item.
      (item,
       \<lparr> fz_Risk = orElse (getProperty (tfn_Risk t) (Risk item)) (Own (Num 0, Num 0, Num 0)),
         fz_Demand_fluctuation = orElse
           (getProperty (tfn_Demand_fluctuation t) (Demand_fluctuation item))
           (Own (Num 0, Num 0, Num 0)),
         fz_Consignment_stock = orElse
           (getProperty (tfn_Consignment_stock t) (Consignment_stock item))
           (Own (Num 0, Num 0, Num 0)),
         fz_Unit_size = orElse (getProperty (tfn_Unit_size t) (Unit_size item))
           (Own (Num 0, Num 0, Num 0)) \<rparr>)) data"

definition scaleTfn :: "jsnum \<Rightarrow> tfn \<Rightarrow> tfn" where
  "scaleTfn weight t = (case t of (l, m, u) \<Rightarrow> (js_mul l weight, js_mul m weight, js_mul u weight))"

definition vertexSq :: "tfn \<Rightarrow> tfn \<Rightarrow> jsnum" where
  "vertexSq a b =
    (case (a, b) of ((a0, a1, a2), (b0, b1, b2)) \<Rightarrow>
      js_div (js_add (js_add (js_pow2 (js_sub a0 b0)) (js_pow2 (js_sub a1 b1)))
                (js_pow2 (js_sub a2 b2))) (Num 3))"

definition criteriaMatrix ::
  "FuzzyValues \<Rightarrow> jsnum \<Rightarrow> jsnum \<Rightarrow> jsnum \<Rightarrow> jsnum \<Rightarrow> tfn member list" where
  "criteriaMatrix fuzzy nAvgStock nDailyUsage nUnitCost nLeadTime =
    [fz_Risk fuzzy,
     fz_Demand_fluctuation fuzzy,
     Own (nAvgStock, nAvgStock, nAvgStock),
     Own (nDailyUsage, nDailyUsage, nDailyUsage),
     Own (nUnitCost, nUnitCost, nUnitCost),
     Own (nLeadTime, nLeadTime, nLeadTime),
     fz_Consignment_stock fuzzy,
     fz_Unit_size fuzzy]"

definition fuzzyWeight :: jsnum where
  "fuzzyWeight = js_div (Num 1) (Num 8)"

definition fpisBase :: tfn where
  "fpisBase = (Num 1, Num 1, Num 1)"

definition fnisBase :: tfn where
  "fnisBase = (Num 0, Num 0, Num 0)"

fun sqSums :: "jsnum \<times> jsnum \<Rightarrow> tfn member list \<Rightarrow> error + jsnum \<times> jsnum" where
  "sqSums acc [] = Inr acc"
| "sqSums acc (Inherited # rest) = Inl TypeError"
| "sqSums (dPosSqSum, dNegSqSum) (Own tfnVal # rest) =
    (let wTfn = scaleTfn fuzzyWeight tfnVal;
         wIdealBest = scaleTfn fuzzyWeight fpisBase;
         wIdealWorst = scaleTfn fuzzyWeight fnisBase
     in sqSums (js_add dPosSqSum (vertexSq wTfn wIdealBest),
                js_add dNegSqSum (vertexSq wTfn wIdealWorst)) rest)"

definition fuzzyRow :: "InventoryItem list \<Rightarrow> FuzzyTFN \<Rightarrow> nat \<Rightarrow> tfn member list" where
  "fuzzyRow data t idx =
    (let fuzzyData = applyFuzzyMappings data t;
         normDailyUsage = minMaxNormalize (map Daily_usage data);
         normAvgStock = minMaxNormalize (map Average_stock data);
         normUnitCost = minMaxNormalize (map Unit_cost data);
         normLeadTime = minMaxNormalize (map Lead_time data);
         fuzzy = snd (fuzzyData ! idx)
     in criteriaMatrix fuzzy (normAvgStock ! idx) (normDailyUsage ! idx)
          (normUnitCost ! idx) (normLeadTime ! idx))"

definition fuzzyScore :: "InventoryItem list \<Rightarrow> FuzzyTFN \<Rightarrow> nat \<Rightarrow> error + jsnum" where
  "fuzzyScore data t idx =
    (case sqSums (Num 0, Num 0) (fuzzyRow data t idx) of
       Inl e \<Rightarrow> Inl e
     | Inr (dPosSqSum, dNegSqSum) \<Rightarrow>
         let dPos = js_sqrt dPosSqSum; dNeg = js_sqrt dNegSqSum
         in Inr (js_div dNeg (js_add dPos dNeg)))"

fun mapE :: "('a \<Rightarrow> error + 'b) \<Rightarrow> 'a list \<Rightarrow> error + 'b list" where
  "mapE f [] = Inr []"
| "mapE f (x # xs) =
    (case f x of
       Inl e \<Rightarrow> Inl e
     | Inr y \<Rightarrow> (case mapE f xs of Inl e \<Rightarrow> Inl e | Inr ys \<Rightarrow> Inr (y # ys)))"

definition calculateFuzzyTOPSIS ::
  "InventoryItem list \<Rightarrow> FuzzyTFN \<Rightarrow> error + InventoryItem list" where
  "calculateFuzzyTOPSIS data t =
    mapE (\<lambda>(item, idx).
        case fuzzyScore data t idx of
          Inl e \<Rightarrow> Inl e
        | Inr score \<Rightarrow> Inr (item \<lparr> Fuzzy_TOPSIS_Score := Some score \<rparr>)) (indexed data)"

subsection \<open>calculateCorrelationMatrix\<close>

text \<open>The columns are any keys that \<open>getValue\<close> knows, the two scores among them.\<close>

definition columnValues :: "InventoryItem list \<Rightarrow> string list \<Rightarrow> jsnum list list" where
  "columnValues data columns = map (\<lambda>col. map (\<lambda>d. getValue d col) data) columns"

definition columnMeans :: "InventoryItem list \<Rightarrow> string list \<Rightarrow> jsnum list" where
  "columnMeans data columns =
    map (\<lambda>col. js_div (foldl (\<lambda>a b. js_add a b) (Num 0) col) (Num (real (length data))))
      (columnValues data columns)"

definition columnStds :: "InventoryItem list \<Rightarrow> string list \<Rightarrow> jsnum list" where
  "columnStds data columns =
    map (\<lambda>(col, i).
        let variance =
          js_div
            (foldl (\<lambda>sum v. js_add sum (js_pow2 (js_sub v (columnMeans data columns ! i))))
               (Num 0) col)
            (Num (real (length data)))
        in js_sqrt variance) (indexed (columnValues data columns))"

definition calculateCorrelationMatrix ::
  "InventoryItem list \<Rightarrow> string list \<Rightarrow> jsnum list list \<times> string list" where
  "calculateCorrelationMatrix data columns =
    (let n = Num (real (length data));
         vals = columnValues data columns;
         means = columnMeans data columns;
         stds = columnStds data columns;
         matrix =
           map (\<lambda>(_, i).
             map (\<lambda>(_, j).
               if is_zero (stds ! i) \<or> is_zero (stds ! j) then Num 0
               else
                 let cov =
                   js_div
                     (foldl (\<lambda>sum (v, k). js_add sum
                         (js_mul (js_sub v (means ! i)) (js_sub (vals ! j ! k) (means ! j))))
                       (Num 0) (indexed (vals ! i)))
                     n
                 in js_div cov (js_mul (stds ! i) (stds ! j)))
               (indexed columns))
             (indexed columns)
     in (matrix, columns))"

section \<open>Predicates of the claims, configuration defaults and sample data\<close>

text \<open>Predicates and projections the claims are stated with.\<close>

definition eraseClass :: "InventoryItem \<Rightarrow> InventoryItem" where
  "eraseClass x = x \<lparr> Class := None, Fuzzy_Class := None \<rparr>"

definition descending :: "string \<Rightarrow> InventoryItem list \<Rightarrow> bool" where
  "descending f xs = sorted_wrt (\<lambda>a b. js_le (getValue b f) (getValue a f)) xs"

definition rawAttributes ::
  "InventoryItem \<Rightarrow> jsnum \<times> string \<times> string \<times> jsnum \<times> jsnum \<times> jsnum \<times> jsnum \<times> string \<times> string" where
  "rawAttributes x =
    (item_id x, Risk x, Demand_fluctuation x, Average_stock x, Daily_usage x, Unit_cost x,
     Lead_time x, Consignment_stock x, Unit_size x)"

text \<open>
  The defaults of store/analysisStore.ts; a decimal literal is the double nearest to it.
\<close>

definition defaultMappingTables :: MappingTable where
  "defaultMappingTables =
    \<lparr> map_Risk = [''High'' \<mapsto> rnd (47 / 100), ''Normal'' \<mapsto> rnd (35 / 100), ''Low'' \<mapsto> rnd (18 / 100)],
      map_Demand_fluctuation =
        [''Increasing'' \<mapsto> rnd (36 / 100), ''Stable'' \<mapsto> rnd (28 / 100),
         ''Unknown'' \<mapsto> rnd (20 / 100), ''Decreasing'' \<mapsto> rnd (16 / 100), ''Ending'' \<mapsto> Num 0],
      map_Consignment_stock = [''No'' \<mapsto> rnd (80 / 100), ''Yes'' \<mapsto> rnd (20 / 100)],
      map_Unit_size =
        [''Large'' \<mapsto> rnd (53 / 100), ''Medium'' \<mapsto> rnd (31 / 100), ''Small'' \<mapsto> rnd (13 / 100)] \<rparr>"

definition defaultFuzzyTFN :: FuzzyTFN where
  "defaultFuzzyTFN =
    \<lparr> tfn_Risk =
        [''High'' \<mapsto> (rnd (7 / 10), rnd (9 / 10), Num 1),
         ''Normal'' \<mapsto> (rnd (3 / 10), Num (1 / 2), rnd (7 / 10)),
         ''Low'' \<mapsto> (Num 0, rnd (1 / 10), rnd (3 / 10))],
      tfn_Demand_fluctuation =
        [''Increasing'' \<mapsto> (rnd (7 / 10), rnd (9 / 10), Num 1),
         ''Stable'' \<mapsto> (rnd (4 / 10), rnd (6 / 10), rnd (8 / 10)),
         ''Unknown'' \<mapsto> (rnd (2 / 10), rnd (4 / 10), rnd (6 / 10)),
         ''Decreasing'' \<mapsto> (rnd (1 / 10), rnd (2 / 10), rnd (4 / 10)),
         ''Ending'' \<mapsto> (Num 0, Num 0, rnd (1 / 10))],
      tfn_Consignment_stock =
        [''No'' \<mapsto> (rnd (6 / 10), rnd (8 / 10), Num 1),
         ''Yes'' \<mapsto> (Num 0, rnd (2 / 10), rnd (4 / 10))],
      tfn_Unit_size =
        [''Large'' \<mapsto> (rnd (6 / 10), rnd (8 / 10), Num 1),
         ''Medium'' \<mapsto> (rnd (3 / 10), Num (1 / 2), rnd (7 / 10)),
         ''Small'' \<mapsto> (Num 0, rnd (2 / 10), rnd (4 / 10))] \<rparr>"

definition defaultThresholds :: ABCThresholds where
  "defaultThresholds = \<lparr> thr_A = Num 20, thr_B = Num 30, thr_C = Num 50 \<rparr>"

text \<open>An item as the importer builds it (components/sections/DataImport.tsx): no computed field.\<close>

definition rawItem ::
  "real \<Rightarrow> string \<Rightarrow> string \<Rightarrow> jsnum \<Rightarrow> jsnum \<Rightarrow> jsnum \<Rightarrow> jsnum \<Rightarrow> string \<Rightarrow> string \<Rightarrow> InventoryItem" where
  "rawItem i risk fluct stock usage cost lead cons usize =
    \<lparr> item_id = Num i, Risk = risk, Demand_fluctuation = fluct, Average_stock = stock,
      Daily_usage = usage, Unit_cost = cost, Lead_time = lead, Consignment_stock = cons,
      Unit_size = usize, Risk_Score = None, Fluctuation_Score = None,
      Consignment_Score = None, Size_Score = None, Criticality_Agg = None, Demand_Agg = None,
      Supply_Agg = None, TOPSIS_Score = None, Fuzzy_TOPSIS_Score = None,
      ML_Predicted_Class = None, Class = None, Fuzzy_Class = None \<rparr>"

definition sampleData :: "InventoryItem list" where
  "sampleData =
    [rawItem 1 ''High'' ''Increasing'' (Num 120) (Num 4) (Num 25) (Num 10) ''No'' ''Large'',
     rawItem 2 ''Low'' ''Stable'' (Num 40) (Num 1) (Num 5) (Num 30) ''Yes'' ''Small'',
     rawItem 3 ''Unlisted'' ''Other'' (Num 300) (Num 9) (Num 60) (Num 14) ''Maybe'' ''Huge'']"

definition pairData :: "InventoryItem list" where
  "pairData =
    [rawItem 1 ''High'' ''Stable'' (Num 10) (Num 2) (Num 3) (Num 7) ''No'' ''Large'',
     rawItem 2 ''Low'' ''Stable'' (Num 20) (Num 5) (Num 4) (Num 9) ''Yes'' ''Small'']"

definition unitWeights :: EntropyWeights where
  "unitWeights =
    \<lparr> w_Criticality_Agg = Num 1, w_Demand_Agg = Num 1, w_Supply_Agg = Num 1,
      w_Unit_cost = Num 1, w_Size_Score = Num 1 \<rparr>"


definition sampleWeights :: AggregationWeights where
  "sampleWeights =
    \<lparr> Criticality_Risk = Num 3, Criticality_Fluctuation = Num 1,
      Demand_DailyUsage = Num (3 / 4), Demand_AverageStock = Num (1 / 4),
      Supply_LeadTime = Num (3 / 4), Supply_Consignment = Num (1 / 4) \<rparr>"

text \<open>An item whose Risk label is the name of a member of \<^verbatim>\<open>Object.prototype\<close>.\<close>

definition inheritedItem :: InventoryItem where
  "inheritedItem = rawItem 1 ''constructor'' ''Stable'' (Num 1) (Num 1) (Num 1) (Num 1) ''No'' ''Large''"

text \<open>The real number of a finite value.\<close>

fun the_num :: "jsnum \<Rightarrow> real" where
  "the_num (Num a) = a"

text \<open>A number of the interval \<open>[0,1]\<close>, and a finite number that is a double.\<close>

definition inUnit :: "jsnum \<Rightarrow> bool" where
  "inUnit x = (\<exists>v. x = Num v \<and> 0 \<le> v \<and> v \<le> 1)"

definition isFiniteDouble :: "jsnum \<Rightarrow> bool" where
  "isFiniteDouble x = (isFinite x \<and> isDouble x)"



text \<open>Scored items: a list with a \<^verbatim>\<open>NaN\<close> score, and one with finite scores.\<close>

definition nanScored :: "InventoryItem list" where
  "nanScored =
    [(rawItem 1 ''High'' ''Increasing'' (Num 120) (Num 4) (Num 25) (Num 10) ''No'' ''Large'')
       \<lparr> TOPSIS_Score := Some (Num 1) \<rparr>,
     (rawItem 2 ''Low'' ''Stable'' (Num 40) (Num 1) (Num 5) (Num 30) ''Yes'' ''Small'')
       \<lparr> TOPSIS_Score := Some NaN \<rparr>]"

definition scoredData :: "InventoryItem list" where
  "scoredData =
    [(rawItem 1 ''High'' ''Increasing'' (Num 120) (Num 4) (Num 25) (Num 10) ''No'' ''Large'')
       \<lparr> TOPSIS_Score := Some (Num (1 / 4)) \<rparr>,
     (rawItem 2 ''Low'' ''Stable'' (Num 40) (Num 1) (Num 5) (Num 30) ''Yes'' ''Small'')
       \<lparr> TOPSIS_Score := Some (Num (3 / 4)) \<rparr>,
     (rawItem 3 ''Unlisted'' ''Other'' (Num 300) (Num 9) (Num 60) (Num 14) ''Maybe'' ''Huge'')
       \<lparr> TOPSIS_Score := Some (Num (1 / 2)) \<rparr>]"

text \<open>An implementation of the sort that leaves an array with an inconsistent comparator as it is.\<close>

definition inputOrder :: "('a \<Rightarrow> 'a \<Rightarrow> jsnum) \<Rightarrow> 'a list \<Rightarrow> 'a list" where
  "inputOrder cmp xs = xs"

definition halfThresholds :: ABCThresholds where
  "halfThresholds = \<lparr> thr_A = Num 50, thr_B = Num 25, thr_C = Num 25 \<rparr>"

text \<open>The four labels of an item do not read an inherited member from the fuzzy tables.\<close>

definition plainLabels :: "FuzzyTFN \<Rightarrow> InventoryItem \<Rightarrow> bool" where
  "plainLabels t item =
    (getProperty (tfn_Risk t) (Risk item) \<noteq> Some Inherited \<and>
     getProperty (tfn_Demand_fluctuation t) (Demand_fluctuation item) \<noteq> Some Inherited \<and>
     getProperty (tfn_Consignment_stock t) (Consignment_stock item) \<noteq> Some Inherited \<and>
     getProperty (tfn_Unit_size t) (Unit_size item) \<noteq> Some Inherited)"

section \<open>Auxiliary facts\<close>

subsection \<open>Doubles and rounding\<close>

lemma tiny_pos: "0 < tiny"
  by (simp add: tiny_def)

lemma finite_dbl: "finite dbl"
proof -
  have "dbl \<subseteq> (\<lambda>(m, k). real_of_int m * 2 ^ k * tiny) ` ({- (2 ^ 53) .. 2 ^ 53} \<times> {..2045})"
    unfolding dbl_def by force
  thus ?thesis by (rule finite_subset) simp
qed

lemma dblI: "\<bar>m\<bar> < 2 ^ 53 \<Longrightarrow> k \<le> 2045 \<Longrightarrow> real_of_int m * 2 ^ k * tiny \<in> dbl"
  unfolding dbl_def by blast

lemma dbl_zero: "0 \<in> dbl"
  using dblI [of 0 0] by simp

lemma dbl_minus: "d \<in> dbl \<Longrightarrow> - d \<in> dbl"
proof -
  assume "d \<in> dbl"
  then obtain m k where d: "d = real_of_int m * 2 ^ k * tiny" and m: "\<bar>m\<bar> < 2 ^ 53" and k: "k \<le> 2045"
    unfolding dbl_def by blast
  have "- d = real_of_int (- m) * 2 ^ k * tiny" by (simp add: d)
  moreover have "\<bar>- m\<bar> < 2 ^ 53" using m by simp
  ultimately show ?thesis using dblI [of "- m" k] k by simp
qed

lemma dbl_maxDbl: "maxDbl \<in> dbl"
  using dblI [of "2 ^ 53 - 1" 2045] by (simp add: maxDbl_def)

lemma dbl_abs_le: assumes "d \<in> dbl" shows "\<bar>d\<bar> \<le> maxDbl"
proof -
  from assms obtain m k where d: "d = real_of_int m * 2 ^ k * tiny" and m: "\<bar>m\<bar> < 2 ^ 53" and k: "k \<le> 2045"
    unfolding dbl_def by blast
  have "real_of_int \<bar>m\<bar> \<le> real_of_int (2 ^ 53 - 1)"
    using m by (subst of_int_le_iff) simp
  hence m': "\<bar>real_of_int m\<bar> \<le> 2 ^ 53 - 1" by simp
  have k': "(2::real) ^ k \<le> 2 ^ 2045" using k by (intro power_increasing) simp_all
  have "\<bar>d\<bar> = \<bar>real_of_int m\<bar> * 2 ^ k * tiny"
    using tiny_pos by (simp add: d abs_mult)
  also have "\<dots> \<le> (2 ^ 53 - 1) * 2 ^ 2045 * tiny"
    using m' k' tiny_pos by (intro mult_mono mult_right_mono) simp_all
  finally show ?thesis by (simp add: maxDbl_def)
qed

lemma dbl_le_max: "d \<in> dbl \<Longrightarrow> d \<le> maxDbl"
  using dbl_abs_le [of d] by simp

lemma dbl_ge_min: "d \<in> dbl \<Longrightarrow> - maxDbl \<le> d"
  using dbl_abs_le [of d] by simp

lemma below_props:
  assumes "- maxDbl \<le> x"
  shows "below x \<in> dbl" "below x \<le> x" "\<And>d. d \<in> dbl \<Longrightarrow> d \<le> x \<Longrightarrow> d \<le> below x"
proof -
  let ?S = "{d \<in> dbl. d \<le> x}"
  have fin: "finite ?S" using finite_dbl by simp
  have ne: "?S \<noteq> {}" using assms dbl_minus [OF dbl_maxDbl] by blast
  from Max_in [OF fin ne] show "below x \<in> dbl" "below x \<le> x" by (simp_all add: below_def)
  fix d assume "d \<in> dbl" "d \<le> x"
  thus "d \<le> below x" unfolding below_def using fin by (intro Max_ge) simp_all
qed

lemma above_props:
  assumes "x \<le> maxDbl"
  shows "above x \<in> dbl" "x \<le> above x" "\<And>d. d \<in> dbl \<Longrightarrow> x \<le> d \<Longrightarrow> above x \<le> d"
proof -
  let ?S = "{d \<in> dbl. x \<le> d}"
  have fin: "finite ?S" using finite_dbl by simp
  have ne: "?S \<noteq> {}" using assms dbl_maxDbl by blast
  from Min_in [OF fin ne] show "above x \<in> dbl" "x \<le> above x" by (simp_all add: above_def)
  fix d assume "d \<in> dbl" "x \<le> d"
  thus "above x \<le> d" unfolding above_def using fin by (intro Min_le) simp_all
qed

lemma roundTiesToEven_cases: "roundTiesToEven x = below x \<or> roundTiesToEven x = above x"
  by (simp add: roundTiesToEven_def Let_def)

lemma roundTiesToEven_dbl:
  assumes "- maxDbl \<le> x" "x \<le> maxDbl"
  shows "roundTiesToEven x \<in> dbl"
  using roundTiesToEven_cases [of x] below_props(1) [OF assms(1)] above_props(1) [OF assms(2)] by auto

lemma roundTiesToEven_nearest:
  assumes lo: "- maxDbl \<le> x" and hi: "x \<le> maxDbl" and d: "d \<in> dbl"
  shows "\<bar>x - roundTiesToEven x\<bar> \<le> \<bar>x - d\<bar>"
proof -
  have b: "below x \<le> x" and a: "x \<le> above x" using below_props(2) [OF lo] above_props(2) [OF hi] .
  have r: "\<bar>x - roundTiesToEven x\<bar> \<le> x - below x" "\<bar>x - roundTiesToEven x\<bar> \<le> above x - x"
    using a b by (auto simp: roundTiesToEven_def Let_def)
  show ?thesis
  proof (cases "d \<le> x")
    case True
    from below_props(3) [OF lo d True] r(1) True show ?thesis by simp
  next
    case False
    hence "x \<le> d" by simp
    from above_props(3) [OF hi d this] r(2) False show ?thesis by simp
  qed
qed

lemma roundTiesToEven_mono:
  assumes x: "- maxDbl \<le> x" "x \<le> maxDbl" and y: "- maxDbl \<le> y" "y \<le> maxDbl" and le: "x \<le> y"
  shows "roundTiesToEven x \<le> roundTiesToEven y"
proof (rule ccontr)
  assume "\<not> ?thesis"
  hence gt: "roundTiesToEven y < roundTiesToEven x" by simp
  have 1: "\<bar>x - roundTiesToEven x\<bar> \<le> \<bar>x - roundTiesToEven y\<bar>"
    using roundTiesToEven_nearest [OF x roundTiesToEven_dbl [OF y]] .
  have 2: "\<bar>y - roundTiesToEven y\<bar> \<le> \<bar>y - roundTiesToEven x\<bar>"
    using roundTiesToEven_nearest [OF y roundTiesToEven_dbl [OF x]] .
  from 1 gt have "roundTiesToEven x + roundTiesToEven y \<le> 2 * x" by (auto simp: abs_if split: if_splits)
  moreover from 2 gt have "2 * y \<le> roundTiesToEven x + roundTiesToEven y" by (auto simp: abs_if split: if_splits)
  ultimately have xy: "x = y" using le by simp
  hence "roundTiesToEven x = roundTiesToEven y" by simp
  with gt show False by simp
qed

lemma roundTiesToEven_dbl_id:
  assumes "d \<in> dbl" shows "roundTiesToEven d = d"
proof -
  have lo: "- maxDbl \<le> d" and hi: "d \<le> maxDbl" using dbl_ge_min dbl_le_max assms by auto
  from roundTiesToEven_nearest [OF lo hi assms] show ?thesis by simp
qed

lemma maxDbl_less_overflowAt: "maxDbl < overflowAt"
proof -
  have "(2 ^ 53 - 1) * (2::real) ^ 2045 = (2 ^ 54 - 2) * 2 ^ 2044" by simp
  hence "maxDbl = (2 ^ 54 - 2) * 2 ^ 2044 * tiny" by (simp add: maxDbl_def)
  moreover have "(2 ^ 54 - 2) * 2 ^ 2044 * tiny < (2 ^ 54 - 1) * 2 ^ 2044 * tiny"
    using tiny_pos by (intro mult_strict_right_mono) simp_all
  ultimately show ?thesis by (simp add: overflowAt_def)
qed

lemma maxDbl_pos: "0 < maxDbl"
  using tiny_pos by (simp add: maxDbl_def)

lemma clamp_range: "- maxDbl \<le> clamp x" "clamp x \<le> maxDbl"
  using maxDbl_pos by (simp_all add: clamp_def)

lemma clamp_mono: "x \<le> y \<Longrightarrow> clamp x \<le> clamp y"
  by (simp add: clamp_def max_def min_def)

lemma rnd_PInf: "overflowAt \<le> x \<Longrightarrow> rnd x = PInf"
  by (simp add: rnd_def)

lemma rnd_NInf: "x \<le> - overflowAt \<Longrightarrow> rnd x = NInf"
  using maxDbl_pos maxDbl_less_overflowAt by (simp add: rnd_def)

lemma rnd_finite:
  assumes "- overflowAt < x" "x < overflowAt"
  shows "rnd x = Num (roundTiesToEven (clamp x))"
proof -
  have m: "roundTiesToEven maxDbl = maxDbl" "roundTiesToEven (- maxDbl) = - maxDbl"
    using roundTiesToEven_dbl_id dbl_maxDbl dbl_minus by auto
  show ?thesis using assms maxDbl_pos m by (simp add: rnd_def clamp_def max_def min_def)
qed

lemma rnd_dbl: "d \<in> dbl \<Longrightarrow> rnd d = Num d"
  using dbl_abs_le [of d] maxDbl_less_overflowAt
  by (simp add: rnd_def roundTiesToEven_dbl_id abs_le_iff)

lemma rnd_not_NaN [simp]: "rnd x \<noteq> NaN"
  by (simp add: rnd_def)

lemma rnd_Num_dbl: "rnd x = Num v \<Longrightarrow> v \<in> dbl"
  using dbl_maxDbl dbl_minus [OF dbl_maxDbl] roundTiesToEven_dbl [of x]
  by (auto simp: rnd_def split: if_splits)

lemma rnd_mono: assumes "x \<le> y" shows "js_le (rnd x) (rnd y)"
proof -
  consider "overflowAt \<le> y" | "x \<le> - overflowAt" | "- overflowAt < x" "y < overflowAt" by linarith
  thus ?thesis
  proof cases
    case 1
    have "js_le v PInf" if "v \<noteq> NaN" for v using that by (cases v) simp_all
    thus ?thesis using rnd_PInf [OF 1] by simp
  next
    case 2
    have "js_le NInf v" if "v \<noteq> NaN" for v using that by (cases v) simp_all
    thus ?thesis using rnd_NInf [OF 2] by simp
  next
    case 3
    hence x: "rnd x = Num (roundTiesToEven (clamp x))" and y: "rnd y = Num (roundTiesToEven (clamp y))"
      using assms by (auto intro!: rnd_finite)
    show ?thesis unfolding x y
      using roundTiesToEven_mono [OF clamp_range clamp_range clamp_mono [OF assms]] by simp
  qed
qed

lemma dbl_tiny: "tiny \<in> dbl"
  using dblI [of 1 0] by simp

lemma dbl_dyadic: assumes n: "\<bar>n\<bar> < 2 ^ 53" and j: "j \<le> 1074" shows "real_of_int n / 2 ^ j \<in> dbl"
proof -
  define P :: real where "P = 2 ^ (1074 - j)"
  define Q :: real where "Q = 2 ^ j"
  have "P * Q = 2 ^ ((1074 - j) + j)" unfolding P_def Q_def by (rule power_add [symmetric])
  hence PQ: "tiny = 1 / (P * Q)" using j by (simp add: tiny_def)
  have "P \<noteq> 0" by (simp add: P_def)
  hence "real_of_int n * P * tiny = real_of_int n / Q" by (simp add: PQ)
  moreover have "real_of_int n * P * tiny \<in> dbl" unfolding P_def by (rule dblI [OF n]) simp
  ultimately show ?thesis by (simp add: Q_def)
qed

lemma dbl_int: "\<bar>n\<bar> < 2 ^ 53 \<Longrightarrow> real_of_int n \<in> dbl"
  using dbl_dyadic [of n 0] by simp

lemma dbl_multiple: assumes "d \<in> dbl" shows "\<exists>k::int. d = real_of_int k * tiny"
proof -
  from assms obtain m k where d: "d = real_of_int m * 2 ^ k * tiny" unfolding dbl_def by blast
  have "d = real_of_int (m * 2 ^ k) * tiny" by (simp add: d)
  thus ?thesis by blast
qed

lemma dbl_diff_ge_tiny: assumes "x \<in> dbl" "y \<in> dbl" "x < y" shows "tiny \<le> y - x"
proof -
  from dbl_multiple [OF assms(1)] dbl_multiple [OF assms(2)]
  obtain k l :: int where x: "x = real_of_int k * tiny" and y: "y = real_of_int l * tiny" by blast
  have "real_of_int k < real_of_int l" using assms(3) tiny_pos by (simp add: x y)
  hence "k < l" by simp
  hence "1 \<le> l - k" by simp
  hence "1 \<le> real_of_int (l - k)" by (subst of_int_1_le_iff)
  hence "1 * tiny \<le> real_of_int (l - k) * tiny" using tiny_pos by (intro mult_right_mono) simp_all
  thus ?thesis by (simp add: x y left_diff_distrib)
qed

lemma rnd_zero [simp]: "rnd 0 = Num 0"
  by (rule rnd_dbl [OF dbl_zero])

lemma rnd_ge: assumes "a \<in> dbl" "a \<le> x" shows "js_le (Num a) (rnd x)"
  using rnd_mono [OF assms(2)] rnd_dbl [OF assms(1)] by simp

lemma rnd_le: assumes "b \<in> dbl" "x \<le> b" shows "js_le (rnd x) (Num b)"
  using rnd_mono [OF assms(2)] rnd_dbl [OF assms(1)] by simp

lemma js_le_Num_left: "js_le (Num a) y \<longleftrightarrow> y = PInf \<or> (\<exists>v. y = Num v \<and> a \<le> v)"
  by (cases y) simp_all

lemma js_le_Num_right: "js_le x (Num b) \<longleftrightarrow> x = NInf \<or> (\<exists>v. x = Num v \<and> v \<le> b)"
  by (cases x) simp_all

lemma rnd_between:
  assumes "a \<in> dbl" "b \<in> dbl" "a \<le> x" "x \<le> b"
  shows "\<exists>v. rnd x = Num v \<and> a \<le> v \<and> v \<le> b \<and> v \<in> dbl"
proof -
  from rnd_ge [OF assms(1,3)] rnd_le [OF assms(2,4)]
  obtain v where "rnd x = Num v" "a \<le> v" "v \<le> b"
    by (auto simp: js_le_Num_left js_le_Num_right)
  thus ?thesis using rnd_Num_dbl by blast
qed

subsection \<open>Indexed lists and the item-wise operations\<close>

lemma length_indexed [simp]: "length (indexed xs) = length xs"
  by (simp add: indexed_def)

lemma nth_indexed [simp]: "i < length xs \<Longrightarrow> indexed xs ! i = (xs ! i, i)"
  by (simp add: indexed_def)

lemma length_minMaxNormalize [simp]: "length (minMaxNormalize values) = length values"
  by (simp add: minMaxNormalize_def Let_def)

lemma length_applyMappings: "length (applyMappings data m) = length data"
  by (simp add: applyMappings_def)

lemma length_applyFuzzyMappings: "length (applyFuzzyMappings data t) = length data"
  by (simp add: applyFuzzyMappings_def)

lemma length_calculateAggregations: "length (calculateAggregations data w) = length data"
  by (simp add: calculateAggregations_def Let_def)

lemma length_calculateTOPSIS: "length (calculateTOPSIS data w) = length data"
  by (simp add: calculateTOPSIS_def Let_def)

lemma applyMappings_nth:
  "i < length data \<Longrightarrow> applyMappings data m ! i = (data ! i)
      \<lparr> Risk_Score := Some (orElse (getProperty (map_Risk m) (Risk (data ! i))) (Own (Num 0))),
        Fluctuation_Score := Some (orElse
          (getProperty (map_Demand_fluctuation m) (Demand_fluctuation (data ! i))) (Own (Num 0))),
        Consignment_Score := Some (orElse
          (getProperty (map_Consignment_stock m) (Consignment_stock (data ! i))) (Own (Num 0))),
        Size_Score := Some (orElse
          (getProperty (map_Unit_size m) (Unit_size (data ! i))) (Own (Num 0))) \<rparr>"
  by (simp add: applyMappings_def)

lemma applyFuzzyMappings_nth:
  "i < length data \<Longrightarrow> applyFuzzyMappings data t ! i =
      (data ! i,
       \<lparr> fz_Risk = orElse (getProperty (tfn_Risk t) (Risk (data ! i))) (Own (Num 0, Num 0, Num 0)),
         fz_Demand_fluctuation = orElse
           (getProperty (tfn_Demand_fluctuation t) (Demand_fluctuation (data ! i)))
           (Own (Num 0, Num 0, Num 0)),
         fz_Consignment_stock = orElse
           (getProperty (tfn_Consignment_stock t) (Consignment_stock (data ! i)))
           (Own (Num 0, Num 0, Num 0)),
         fz_Unit_size = orElse (getProperty (tfn_Unit_size t) (Unit_size (data ! i)))
           (Own (Num 0, Num 0, Num 0)) \<rparr>)"
  by (simp add: applyFuzzyMappings_def)

lemma calculateAggregations_nth:
  "i < length data \<Longrightarrow> calculateAggregations data w ! i = (data ! i)
     \<lparr> Criticality_Agg := Some (js_add
          (js_mul (Criticality_Risk w) (toNumber (orElse (Risk_Score (data ! i)) (Own (Num 0)))))
          (js_mul (Criticality_Fluctuation w)
             (toNumber (orElse (Fluctuation_Score (data ! i)) (Own (Num 0)))))),
       Demand_Agg := Some (js_add
          (js_mul (Demand_DailyUsage w) (minMaxNormalize (map Daily_usage data) ! i))
          (js_mul (Demand_AverageStock w) (minMaxNormalize (map Average_stock data) ! i))),
       Supply_Agg := Some (js_add
          (js_mul (Supply_LeadTime w) (minMaxNormalize (map Lead_time data) ! i))
          (js_mul (Supply_Consignment w)
             (toNumber (orElse (Consignment_Score (data ! i)) (Own (Num 0)))))) \<rparr>"
  by (simp add: calculateAggregations_def Let_def)

lemma calculateTOPSIS_nth:
  "i < length data \<Longrightarrow> calculateTOPSIS data w ! i = (data ! i)
     \<lparr> TOPSIS_Score := Some (js_div (dWorst data w i) (js_add (dBest data w i) (dWorst data w i))) \<rparr>"
  by (simp add: calculateTOPSIS_def Let_def)

subsection \<open>Results that may be an error\<close>

lemma mapE_Inr_iff:
  "mapE f xs = Inr ys \<longleftrightarrow> length ys = length xs \<and> (\<forall>i < length xs. f (xs ! i) = Inr (ys ! i))"
proof (induction xs arbitrary: ys)
  case Nil
  show ?case by auto
next
  case (Cons x xs)
  show ?case
  proof (cases "f x")
    case (Inl e)
    thus ?thesis by auto
  next
    case (Inr y)
    show ?thesis
    proof (cases "mapE f xs")
      case (Inl e)
      have "\<not> (length zs = length xs \<and> (\<forall>i < length xs. f (xs ! i) = Inr (zs ! i)))" for zs
        using Cons.IH [of zs] Inl by simp
      hence "\<not> (length ys = length (x # xs) \<and> (\<forall>i < length (x # xs). f ((x # xs) ! i) = Inr (ys ! i)))"
        by (cases ys) (auto simp: nth_Cons split: nat.splits)
      thus ?thesis using Inl Inr by simp
    next
      case inr: (Inr zs)
      from Cons.IH [of zs] inr
      have zs: "length zs = length xs" "\<forall>i < length xs. f (xs ! i) = Inr (zs ! i)" by simp_all
      show ?thesis
      proof
        assume "mapE f (x # xs) = Inr ys"
        hence "ys = y # zs" using Inr inr by simp
        thus "length ys = length (x # xs) \<and> (\<forall>i < length (x # xs). f ((x # xs) ! i) = Inr (ys ! i))"
          using zs Inr by (auto simp: nth_Cons split: nat.splits)
      next
        assume a: "length ys = length (x # xs) \<and> (\<forall>i < length (x # xs). f ((x # xs) ! i) = Inr (ys ! i))"
        then obtain y' ys' where ys: "ys = y' # ys'" by (cases ys) auto
        from a ys have "f x = Inr y'" by auto
        hence y': "y' = y" using Inr by simp
        from a ys have "length ys' = length xs" "\<forall>i < length xs. f (xs ! i) = Inr (ys' ! i)" by auto
        hence "mapE f xs = Inr ys'" using Cons.IH [of ys'] by simp
        thus "mapE f (x # xs) = Inr ys" using Inr ys y' by simp
      qed
    qed
  qed
qed

lemma mapE_Inl_iff: "(\<exists>e. mapE f xs = Inl e) \<longleftrightarrow> (\<exists>x \<in> set xs. \<exists>e. f x = Inl e)"
  by (induction xs) (auto split: sum.splits)

lemma sqSums_Inl: "Inherited \<in> set row \<Longrightarrow> sqSums acc row = Inl TypeError"
proof (induction row arbitrary: acc)
  case Nil
  thus ?case by simp
next
  case (Cons a row)
  obtain p n where acc: "acc = (p, n)" by (cases acc)
  show ?case using Cons by (cases a) (auto simp: acc Let_def)
qed

lemma sqSums_Inr: "Inherited \<notin> set row \<Longrightarrow> \<exists>r. sqSums acc row = Inr r"
proof (induction row arbitrary: acc)
  case Nil
  thus ?case by simp
next
  case (Cons a row)
  obtain p n where acc: "acc = (p, n)" by (cases acc)
  show ?case using Cons by (cases a) (auto simp: acc Let_def)
qed

lemma calculateFuzzyTOPSIS_Inr_iff:
  "calculateFuzzyTOPSIS data t = Inr out \<longleftrightarrow>
     length out = length data \<and>
     (\<forall>i < length data. \<exists>score. fuzzyScore data t i = Inr score \<and>
        out ! i = (data ! i) \<lparr> Fuzzy_TOPSIS_Score := Some score \<rparr>)"
proof -
  have "(case fuzzyScore data t i of Inl e \<Rightarrow> Inl e
          | Inr score \<Rightarrow> Inr ((data ! i) \<lparr> Fuzzy_TOPSIS_Score := Some score \<rparr>)) = Inr (out ! i) \<longleftrightarrow>
        (\<exists>score. fuzzyScore data t i = Inr score \<and>
           out ! i = (data ! i) \<lparr> Fuzzy_TOPSIS_Score := Some score \<rparr>)" for i
    by (cases "fuzzyScore data t i") auto
  thus ?thesis
    unfolding calculateFuzzyTOPSIS_def mapE_Inr_iff by simp
qed

subsection \<open>Sorting and classification\<close>

lemma mset_insertSorted: "mset (insertSorted cmp x ys) = add_mset x (mset ys)"
  by (induction ys) simp_all

lemma mset_sortBy: "mset (sortBy impl cmp xs) = mset xs"
proof -
  have "mset (foldr (insertSorted cmp) xs []) = mset xs"
    by (induction xs) (simp_all add: mset_insertSorted)
  thus ?thesis by (simp add: sortBy_def engineOrder_def)
qed

lemma length_sortBy: "length (sortBy impl cmp xs) = length xs"
  using mset_sortBy [of impl cmp xs] by (metis size_mset)

lemma set_sortBy: "set (sortBy impl cmp xs) = set xs"
  using mset_sortBy [of impl cmp xs] by (metis set_mset_mset)

lemma classifyABC_length: "length (classifyABC impl data th f) = length data"
  by (simp add: classifyABC_def Let_def length_sortBy)

lemma classifyABC_nth:
  assumes "i < length data"
  shows "classifyABC impl data th f ! i =
    (let item = sortBy impl (compareFn f) data ! i;
         cls = classOf (idxA (length data) th) (idxB (length data) th) i
     in if f = ''TOPSIS_Score'' then item \<lparr> Class := Some cls \<rparr>
        else item \<lparr> Fuzzy_Class := Some cls \<rparr>)"
  using assms by (simp add: classifyABC_def Let_def length_sortBy)

lemma getValue_Class [simp]:
  "getValue (x \<lparr> Class := c \<rparr>) f = getValue x f"
  "getValue (x \<lparr> Fuzzy_Class := c \<rparr>) f = getValue x f"
  by (simp_all add: getValue_def)

lemma classifyABC_getValue:
  "i < length data \<Longrightarrow>
     getValue (classifyABC impl data th f ! i) g = getValue (sortBy impl (compareFn f) data ! i) g"
  by (simp add: classifyABC_nth Let_def)

lemma classifyABC_erase_Class:
  "map (\<lambda>x. x \<lparr> Class := None \<rparr>) (classifyABC impl data th ''TOPSIS_Score'') =
   map (\<lambda>x. x \<lparr> Class := None \<rparr>) (sortBy impl (compareFn ''TOPSIS_Score'') data)"
  by (rule nth_equalityI) (simp_all add: classifyABC_length length_sortBy classifyABC_nth Let_def)

lemma classifyABC_erase_Fuzzy_Class:
  "f \<noteq> ''TOPSIS_Score'' \<Longrightarrow>
   map (\<lambda>x. x \<lparr> Fuzzy_Class := None \<rparr>) (classifyABC impl data th f) =
   map (\<lambda>x. x \<lparr> Fuzzy_Class := None \<rparr>) (sortBy impl (compareFn f) data)"
  by (rule nth_equalityI) (simp_all add: classifyABC_length length_sortBy classifyABC_nth Let_def)

lemma classifyABC_eraseClass:
  "map eraseClass (classifyABC impl data th f) = map eraseClass (sortBy impl (compareFn f) data)"
  by (rule nth_equalityI)
    (simp_all add: classifyABC_length length_sortBy classifyABC_nth Let_def eraseClass_def)

subsection \<open>Raw attributes\<close>

lemma rawAttributes_update [simp]:
  "rawAttributes (x \<lparr> Risk_Score := a \<rparr>) = rawAttributes x"
  "rawAttributes (x \<lparr> Fluctuation_Score := a \<rparr>) = rawAttributes x"
  "rawAttributes (x \<lparr> Consignment_Score := a \<rparr>) = rawAttributes x"
  "rawAttributes (x \<lparr> Size_Score := a \<rparr>) = rawAttributes x"
  "rawAttributes (x \<lparr> Criticality_Agg := b \<rparr>) = rawAttributes x"
  "rawAttributes (x \<lparr> Demand_Agg := b \<rparr>) = rawAttributes x"
  "rawAttributes (x \<lparr> Supply_Agg := b \<rparr>) = rawAttributes x"
  "rawAttributes (x \<lparr> TOPSIS_Score := s \<rparr>) = rawAttributes x"
  "rawAttributes (x \<lparr> Fuzzy_TOPSIS_Score := s \<rparr>) = rawAttributes x"
  "rawAttributes (x \<lparr> Class := c \<rparr>) = rawAttributes x"
  "rawAttributes (x \<lparr> Fuzzy_Class := c \<rparr>) = rawAttributes x"
  by (simp_all add: rawAttributes_def)

lemma rawAttributes_applyMappings:
  "map rawAttributes (applyMappings data m) = map rawAttributes data"
  by (rule nth_equalityI) (simp_all add: length_applyMappings applyMappings_nth)

lemma rawAttributes_calculateAggregations:
  "map rawAttributes (calculateAggregations data w) = map rawAttributes data"
  by (rule nth_equalityI) (simp_all add: length_calculateAggregations calculateAggregations_nth)

lemma rawAttributes_calculateTOPSIS:
  "map rawAttributes (calculateTOPSIS data ew) = map rawAttributes data"
  by (rule nth_equalityI) (simp_all add: length_calculateTOPSIS calculateTOPSIS_nth)

lemma rawAttributes_calculateFuzzyTOPSIS:
  assumes "calculateFuzzyTOPSIS data t = Inr out"
  shows "map rawAttributes out = map rawAttributes data"
proof (rule nth_equalityI)
  from assms show "length (map rawAttributes out) = length (map rawAttributes data)"
    by (simp add: calculateFuzzyTOPSIS_Inr_iff)
next
  fix i assume "i < length (map rawAttributes out)"
  with assms have i: "i < length data" "i < length out" by (simp_all add: calculateFuzzyTOPSIS_Inr_iff)
  with assms obtain score where "out ! i = (data ! i) \<lparr> Fuzzy_TOPSIS_Score := Some score \<rparr>"
    unfolding calculateFuzzyTOPSIS_Inr_iff by blast
  with i show "map rawAttributes out ! i = map rawAttributes data ! i" by simp
qed

lemma rawAttributes_classifyABC:
  "mset (map rawAttributes (classifyABC impl data th f)) = mset (map rawAttributes data)"
proof -
  have "map rawAttributes (classifyABC impl data th f) =
        map rawAttributes (sortBy impl (compareFn f) data)"
    by (rule nth_equalityI)
      (simp_all add: classifyABC_length length_sortBy classifyABC_nth Let_def)
  then show ?thesis
    by (simp add: mset_sortBy)
qed

subsection \<open>The TOPSIS matrices\<close>

lemma length_criteria [simp]: "length criteria = 5"
  by (simp add: criteria_def)

lemma length_decisionMatrix [simp]: "length (decisionMatrix data) = length data"
  by (simp add: decisionMatrix_def)

lemma length_decisionMatrix_row [simp]:
  "r < length data \<Longrightarrow> length (decisionMatrix data ! r) = 5"
  by (simp add: decisionMatrix_def)

lemma length_colSums [simp]: "length (colSums matrix) = 5"
  by (simp add: colSums_def)

lemma length_normalizedMatrix [simp]: "length (normalizedMatrix data) = length data"
  by (simp add: normalizedMatrix_def Let_def)

lemma normalizedMatrix_nth:
  "r < length data \<Longrightarrow> i < 5 \<Longrightarrow>
   normalizedMatrix data ! r ! i =
     (if is_zero (colSums (decisionMatrix data) ! i) then Num 0
      else js_div (decisionMatrix data ! r ! i) (colSums (decisionMatrix data) ! i))"
  by (simp add: normalizedMatrix_def Let_def)

subsection \<open>Numerals that are doubles\<close>

lemma rnd_numeral [simp]: "numeral k < (2::int) ^ 53 \<Longrightarrow> rnd (numeral k) = Num (numeral k)"
  using rnd_dbl [OF dbl_int [of "numeral k"]] by simp

lemma rnd_one [simp]: "rnd 1 = Num 1"
  using rnd_dbl [OF dbl_int [of 1]] by simp

lemma rnd_neg_numeral [simp]:
  "numeral k < (2::int) ^ 53 \<Longrightarrow> rnd (- numeral k) = Num (- numeral k)"
  using rnd_dbl [OF dbl_minus [OF dbl_int [of "numeral k"]]] by simp

lemma rnd_neg_one [simp]: "rnd (- 1) = Num (- 1)"
  using rnd_dbl [OF dbl_minus [OF dbl_int [of 1]]] by simp

lemma rnd_dyadic:
  "\<bar>n\<bar> < 2 ^ 53 \<Longrightarrow> j \<le> 1074 \<Longrightarrow> rnd (real_of_int n / 2 ^ j) = Num (real_of_int n / 2 ^ j)"
  by (rule rnd_dbl [OF dbl_dyadic])

lemma rnd_fractions [simp]:
  "rnd (1 / 2) = Num (1 / 2)" "rnd (1 / 4) = Num (1 / 4)" "rnd (1 / 8) = Num (1 / 8)"
  "rnd (3 / 2) = Num (3 / 2)" "rnd (3 / 4) = Num (3 / 4)" "rnd (7 / 4) = Num (7 / 4)"
  using rnd_dyadic [of 1 1] rnd_dyadic [of 1 2] rnd_dyadic [of 1 3]
    rnd_dyadic [of 3 1] rnd_dyadic [of 3 2] rnd_dyadic [of 7 2]
  by simp_all

section \<open>Mapper\<close>

lemma getProperty_None: "getProperty table l = None \<longleftrightarrow> table l = None \<and> l \<notin> set objectPrototype"
  by (simp add: getProperty_def split: option.splits)

lemma unknown_label_default:
  assumes "i < length data"
  shows "getProperty (map_Risk m) (Risk (data ! i)) = None \<longrightarrow>
           Risk_Score (applyMappings data m ! i) = Some (Own (Num 0))"
    and "getProperty (tfn_Risk t) (Risk (data ! i)) = None \<longrightarrow>
           fz_Risk (snd (applyFuzzyMappings data t ! i)) = Own (Num 0, Num 0, Num 0)"
  using assms by (simp_all add: applyMappings_nth applyFuzzyMappings_nth)

text \<open>
  Claim C7 fails on the code. The label \<^verbatim>\<open>constructor\<close> is absent from the Risk sub-table
  of the default mapping table and of the default fuzzy table, but reading it from the table
  gives the member that the table inherits from \<^verbatim>\<open>Object.prototype\<close>, which
  \<^verbatim>\<open>??\<close> keeps: the score is that member, not 0, the fuzzy value is that member, not
  \<open>(0,0,0)\<close>, and \<open>calculateFuzzyTOPSIS\<close> then throws a \<^verbatim>\<open>TypeError\<close>.
\<close>

theorem inherited_label_not_default:
  "map_Risk defaultMappingTables (Risk inheritedItem) = None \<and>
   Risk_Score (applyMappings [inheritedItem] defaultMappingTables ! 0) = Some Inherited \<and>
   tfn_Risk defaultFuzzyTFN (Risk inheritedItem) = None \<and>
   fz_Risk (snd (applyFuzzyMappings [inheritedItem] defaultFuzzyTFN ! 0)) = Inherited \<and>
   calculateFuzzyTOPSIS [inheritedItem] defaultFuzzyTFN = Inl TypeError"
proof -
  have 1: "map_Risk defaultMappingTables (Risk inheritedItem) = None"
    and 2: "tfn_Risk defaultFuzzyTFN (Risk inheritedItem) = None"
    by (simp_all add: defaultMappingTables_def defaultFuzzyTFN_def inheritedItem_def rawItem_def)
  have 3: "Risk_Score (applyMappings [inheritedItem] defaultMappingTables ! 0) = Some Inherited"
    using 1 by (simp add: applyMappings_def getProperty_def objectPrototype_def inheritedItem_def
        rawItem_def)
  have 4: "fz_Risk (snd (applyFuzzyMappings [inheritedItem] defaultFuzzyTFN ! 0)) = Inherited"
    using 2 by (simp add: applyFuzzyMappings_def getProperty_def objectPrototype_def
        inheritedItem_def rawItem_def)
  have "Inherited \<in> set (fuzzyRow [inheritedItem] defaultFuzzyTFN 0)"
    using 4 by (simp add: fuzzyRow_def Let_def criteriaMatrix_def)
  hence "fuzzyScore [inheritedItem] defaultFuzzyTFN 0 = Inl TypeError"
    by (simp add: fuzzyScore_def sqSums_Inl)
  hence 5: "calculateFuzzyTOPSIS [inheritedItem] defaultFuzzyTFN = Inl TypeError"
    by (simp add: calculateFuzzyTOPSIS_def indexed_def)
  from 1 2 3 4 5 show ?thesis by simp
qed

section \<open>Aggregator\<close>



section \<open>TOPSIS ranker\<close>

text \<open>
  Claim C8. In \<open>calculateTOPSIS\<close>, when a criterion column has Euclidean norm 0, every
  normalised entry of that column is 0. The division is guarded by the test
  \<^verbatim>\<open>colSums[i] === 0\<close>: an entry is the quotient by the norm only where the norm is
  not 0. The function returns for every dataset.
\<close>

theorem zero_norm_column:
  "\<forall>r < length data. \<forall>i < length criteria.
     (is_zero (colSums (decisionMatrix data) ! i) \<longrightarrow> normalizedMatrix data ! r ! i = Num 0) \<and>
     (\<not> is_zero (colSums (decisionMatrix data) ! i) \<longrightarrow>
        normalizedMatrix data ! r ! i =
          js_div (decisionMatrix data ! r ! i) (colSums (decisionMatrix data) ! i))"
  by (simp add: normalizedMatrix_nth)

lemma pairData_matrix:
  "decisionMatrix pairData =
     [[Num 0, Num 0, Num 0, Num 3, Num 0], [Num 0, Num 0, Num 0, Num 4, Num 0]]"
  by (simp add: decisionMatrix_def pairData_def rawItem_def criteria_def getValue_def)

lemma sqrt_25: "sqrt 25 = 5"
  using real_sqrt_abs [of 5] by simp

lemma pairData_colSums:
  "colSums [[Num 0, Num 0, Num 0, Num 3, Num 0], [Num 0, Num 0, Num 0, Num 4, Num 0]] =
     [Num 0, Num 0, Num 0, Num 5, Num 0]"
  by (simp add: colSums_def indexed_def criteria_def upt_rec js_pow2_def sqrt_25)

theorem zero_norm_column_witness:
  "is_zero (colSums (decisionMatrix pairData) ! 0) \<and> normalizedMatrix pairData ! 1 ! 0 = Num 0"
proof -
  have z: "is_zero (colSums (decisionMatrix pairData) ! 0)"
    by (simp add: pairData_matrix pairData_colSums)
  have "1 < length pairData" and "0 < length criteria"
    by (simp_all add: pairData_def)
  with z zero_norm_column [of pairData] show ?thesis
    by blast
qed

section \<open>Frame\<close>

text \<open>
  Claim C10. Every core operation keeps the number of items and leaves, for each item,
  every field as it was except the fields it writes: \<open>applyMappings\<close> writes the four
  score fields, \<open>calculateAggregations\<close> the three aggregates, \<open>calculateTOPSIS\<close> the
  field TOPSIS_Score, \<open>calculateFuzzyTOPSIS\<close> (whenever it returns a list) the field
  Fuzzy_TOPSIS_Score, and \<open>classifyABC\<close>, which reorders the items, the field Class (or
  Fuzzy_Class). The id and the eight raw attributes of every item are the same after each
  operation.
\<close>

theorem frame_spec:
  "length (applyMappings data m) = length data \<and>
   length (calculateAggregations data w) = length data \<and>
   length (calculateTOPSIS data ew) = length data \<and>
   length (classifyABC impl data th f) = length data \<and>
   (\<forall>i < length data.
      applyMappings data m ! i = (data ! i)
        \<lparr> Risk_Score := Risk_Score (applyMappings data m ! i),
          Fluctuation_Score := Fluctuation_Score (applyMappings data m ! i),
          Consignment_Score := Consignment_Score (applyMappings data m ! i),
          Size_Score := Size_Score (applyMappings data m ! i) \<rparr> \<and>
      calculateAggregations data w ! i = (data ! i)
        \<lparr> Criticality_Agg := Criticality_Agg (calculateAggregations data w ! i),
          Demand_Agg := Demand_Agg (calculateAggregations data w ! i),
          Supply_Agg := Supply_Agg (calculateAggregations data w ! i) \<rparr> \<and>
      calculateTOPSIS data ew ! i = (data ! i)
        \<lparr> TOPSIS_Score := TOPSIS_Score (calculateTOPSIS data ew ! i) \<rparr>) \<and>
   (\<forall>out. calculateFuzzyTOPSIS data t = Inr out \<longrightarrow>
      length out = length data \<and>
      (\<forall>i < length data.
         out ! i = (data ! i) \<lparr> Fuzzy_TOPSIS_Score := Fuzzy_TOPSIS_Score (out ! i) \<rparr>) \<and>
      map rawAttributes out = map rawAttributes data) \<and>
   mset (map (\<lambda>x. x \<lparr> Class := None \<rparr>) (classifyABC impl data th ''TOPSIS_Score'')) =
     mset (map (\<lambda>x. x \<lparr> Class := None \<rparr>) data) \<and>
   mset (map (\<lambda>x. x \<lparr> Fuzzy_Class := None \<rparr>) (classifyABC impl data th ''Fuzzy_TOPSIS_Score'')) =
     mset (map (\<lambda>x. x \<lparr> Fuzzy_Class := None \<rparr>) data) \<and>
   map rawAttributes (applyMappings data m) = map rawAttributes data \<and>
   map rawAttributes (calculateAggregations data w) = map rawAttributes data \<and>
   map rawAttributes (calculateTOPSIS data ew) = map rawAttributes data \<and>
   mset (map rawAttributes (classifyABC impl data th f)) = mset (map rawAttributes data)"
proof -
  have "\<forall>i < length data.
      applyMappings data m ! i = (data ! i)
        \<lparr> Risk_Score := Risk_Score (applyMappings data m ! i),
          Fluctuation_Score := Fluctuation_Score (applyMappings data m ! i),
          Consignment_Score := Consignment_Score (applyMappings data m ! i),
          Size_Score := Size_Score (applyMappings data m ! i) \<rparr> \<and>
      calculateAggregations data w ! i = (data ! i)
        \<lparr> Criticality_Agg := Criticality_Agg (calculateAggregations data w ! i),
          Demand_Agg := Demand_Agg (calculateAggregations data w ! i),
          Supply_Agg := Supply_Agg (calculateAggregations data w ! i) \<rparr> \<and>
      calculateTOPSIS data ew ! i = (data ! i)
        \<lparr> TOPSIS_Score := TOPSIS_Score (calculateTOPSIS data ew ! i) \<rparr>"
    by (simp add: applyMappings_nth calculateAggregations_nth calculateTOPSIS_nth)
  moreover have "\<forall>out. calculateFuzzyTOPSIS data t = Inr out \<longrightarrow>
      length out = length data \<and>
      (\<forall>i < length data.
         out ! i = (data ! i) \<lparr> Fuzzy_TOPSIS_Score := Fuzzy_TOPSIS_Score (out ! i) \<rparr>) \<and>
      map rawAttributes out = map rawAttributes data"
  proof (intro allI impI conjI)
    fix out assume out: "calculateFuzzyTOPSIS data t = Inr out"
    thus "length out = length data" by (simp add: calculateFuzzyTOPSIS_Inr_iff)
    show "map rawAttributes out = map rawAttributes data"
      using out by (rule rawAttributes_calculateFuzzyTOPSIS)
    fix i assume "i < length data"
    with out obtain score where "out ! i = (data ! i) \<lparr> Fuzzy_TOPSIS_Score := Some score \<rparr>"
      unfolding calculateFuzzyTOPSIS_Inr_iff by blast
    thus "out ! i = (data ! i) \<lparr> Fuzzy_TOPSIS_Score := Fuzzy_TOPSIS_Score (out ! i) \<rparr>" by simp
  qed
  moreover have "mset (map (\<lambda>x. x \<lparr> Class := None \<rparr>) (classifyABC impl data th ''TOPSIS_Score'')) =
     mset (map (\<lambda>x. x \<lparr> Class := None \<rparr>) data)"
    by (simp add: classifyABC_erase_Class mset_sortBy)
  moreover have
    "mset (map (\<lambda>x. x \<lparr> Fuzzy_Class := None \<rparr>) (classifyABC impl data th ''Fuzzy_TOPSIS_Score'')) =
     mset (map (\<lambda>x. x \<lparr> Fuzzy_Class := None \<rparr>) data)"
    by (simp add: classifyABC_erase_Fuzzy_Class mset_sortBy)
  ultimately show ?thesis
    using length_applyMappings [of data m] length_calculateAggregations [of data w]
      length_calculateTOPSIS [of data ew]
      classifyABC_length [of impl data th f] rawAttributes_applyMappings [of data m]
      rawAttributes_calculateAggregations [of data w] rawAttributes_calculateTOPSIS [of data ew]
      rawAttributes_classifyABC [of impl data th f]
    by blast
qed

subsection \<open>Arithmetic on numbers\<close>

lemma isFiniteDouble_iff: "isFiniteDouble x \<longleftrightarrow> (\<exists>a \<in> dbl. x = Num a)"
  by (cases x) (auto simp: isFiniteDouble_def)

lemma js_sub_Num [simp]: "js_sub (Num a) (Num b) = rnd (a - b)"
  by (simp add: js_sub_def)

lemma rnd_diff_pos:
  assumes "x \<in> dbl" "y \<in> dbl" "x < y"
  shows "rnd (y - x) = PInf \<or> (\<exists>v. rnd (y - x) = Num v \<and> 0 < v)"
proof -
  from rnd_ge [OF dbl_tiny dbl_diff_ge_tiny [OF assms]]
  show ?thesis using tiny_pos by (auto simp: js_le_Num_left) 
qed

subsection \<open>Minimum and maximum\<close>

lemma foldl_js_min2_Num:
  "\<forall>v \<in> set xs. isFinite v \<Longrightarrow>
     foldl js_min2 (Num a) xs = Num (Min (insert a (the_num ` set xs)))"
proof (induction xs arbitrary: a)
  case Nil
  show ?case by simp
next
  case (Cons x xs)
  then obtain b where x: "x = Num b" by (cases x) auto
  have "js_min2 (Num a) x = Num (min a b)" by (auto simp: js_min2_def x)
  moreover have "Min (insert (min a b) (the_num ` set xs)) = Min (insert a (the_num ` set (x # xs)))"
    by (cases "the_num ` set xs = {}") (simp_all add: x min.assoc)
  ultimately show ?case using Cons by simp
qed

lemma foldl_js_max2_Num:
  "\<forall>v \<in> set xs. isFinite v \<Longrightarrow>
     foldl js_max2 (Num a) xs = Num (Max (insert a (the_num ` set xs)))"
proof (induction xs arbitrary: a)
  case Nil
  show ?case by simp
next
  case (Cons x xs)
  then obtain b where x: "x = Num b" by (cases x) auto
  have "js_max2 (Num a) x = Num (max a b)" by (auto simp: js_max2_def x)
  moreover have "Max (insert (max a b) (the_num ` set xs)) = Max (insert a (the_num ` set (x # xs)))"
    by (cases "the_num ` set xs = {}") (simp_all add: x max.assoc)
  ultimately show ?case using Cons by simp
qed

lemma math_min_finite:
  assumes "xs \<noteq> []" "\<forall>v \<in> set xs. isFinite v"
  shows "math_min xs = Num (Min (the_num ` set xs))"
proof -
  from assms obtain a ys where xs: "xs = Num a # ys" by (cases xs; cases "hd xs") auto
  have "js_min2 PInf (Num a) = Num a" by (simp add: js_min2_def)
  thus ?thesis using assms(2) by (simp add: math_min_def xs foldl_js_min2_Num)
qed

lemma math_max_finite:
  assumes "xs \<noteq> []" "\<forall>v \<in> set xs. isFinite v"
  shows "math_max xs = Num (Max (the_num ` set xs))"
proof -
  from assms obtain a ys where xs: "xs = Num a # ys" by (cases xs; cases "hd xs") auto
  have "js_max2 NInf (Num a) = Num a" by (simp add: js_max2_def)
  thus ?thesis using assms(2) by (simp add: math_max_def xs foldl_js_max2_Num)
qed

subsection \<open>Min-max normalisation\<close>

lemma minMaxNormalize_nth:
  "i < length values \<Longrightarrow> minMaxNormalize values ! i =
     (if js_eq (math_max values) (math_min values) then Num (1 / 2)
      else js_div (js_sub (values ! i) (math_min values))
             (js_sub (math_max values) (math_min values)))"
  by (simp add: minMaxNormalize_def Let_def)

lemma quotient_inUnit:
  assumes "0 \<le> a" "a \<le> r" "0 < r"
  shows "inUnit (js_div (Num a) (Num r))"
proof -
  have "0 \<le> a / r" "a / r \<le> 1" using assms by simp_all
  from rnd_between [OF dbl_zero _ this] dbl_int [of 1]
  obtain v where "rnd (a / r) = Num v" "0 \<le> v" "v \<le> 1" by auto
  thus ?thesis using assms by (simp add: inUnit_def)
qed

lemma minMaxNormalize_inUnit:
  assumes fin: "\<forall>v \<in> set values. isFiniteDouble v"
    and range: "isFinite (js_sub (math_max values) (math_min values))"
    and i: "i < length values"
  shows "inUnit (minMaxNormalize values ! i)"
proof -
  from i have ne: "values \<noteq> []" by auto
  from fin have fin': "\<forall>v \<in> set values. isFinite v" by (simp add: isFiniteDouble_def)
  let ?S = "the_num ` set values"
  have S: "finite ?S" "?S \<noteq> {}" using ne by simp_all
  have mn: "math_min values = Num (Min ?S)" using math_min_finite [OF ne fin'] .
  have mx: "math_max values = Num (Max ?S)" using math_max_finite [OF ne fin'] .
  have sub: "?S \<subseteq> dbl" using fin by (auto simp: isFiniteDouble_iff)
  have mnd: "Min ?S \<in> dbl" and mxd: "Max ?S \<in> dbl" using Min_in [OF S] Max_in [OF S] sub by auto
  from i fin have "isFiniteDouble (values ! i)" by simp
  then obtain a where a: "values ! i = Num a" "a \<in> dbl"
    by (auto simp: isFiniteDouble_iff)
  hence aS: "a \<in> ?S" using i by (metis image_eqI nth_mem the_num.simps)
  have lo: "Min ?S \<le> a" and hi: "a \<le> Max ?S" using aS S by simp_all
  show ?thesis
  proof (cases "Max ?S = Min ?S")
    case True
    hence "minMaxNormalize values ! i = Num (1 / 2)"
      using i by (simp add: minMaxNormalize_nth mn mx js_eq_def)
    moreover have "inUnit (Num (1 / 2))" unfolding inUnit_def by (intro exI [of _ "1 / 2"]) simp
    ultimately show ?thesis by simp
  next
    case False
    hence lt: "Min ?S < Max ?S" using lo hi by simp
    from range obtain r where r: "rnd (Max ?S - Min ?S) = Num r"
      by (cases "rnd (Max ?S - Min ?S)") (simp_all add: mn mx)
    with rnd_diff_pos [OF mnd mxd lt] have rpos: "0 < r" by simp
    have "js_le (rnd 0) (rnd (a - Min ?S))" using lo by (intro rnd_mono) simp
    moreover have "js_le (rnd (a - Min ?S)) (rnd (Max ?S - Min ?S))" using hi by (intro rnd_mono) simp
    ultimately obtain q where q: "rnd (a - Min ?S) = Num q" "0 \<le> q" "q \<le> r"
      by (auto simp: r js_le_Num_left js_le_Num_right)
    have "minMaxNormalize values ! i = js_div (Num q) (Num r)"
      using i False by (simp add: minMaxNormalize_nth mn mx js_eq_def a q r)
    thus ?thesis using quotient_inUnit [OF q(2,3) rpos] by simp
  qed
qed

section \<open>Normalizer\<close>

text \<open>
  Claim C5, as stated, puts every output of every non-empty list in \<open>[0,1]\<close>. A list can
  hold \<^verbatim>\<open>Infinity\<close> (the importer keeps it): \<^verbatim>\<open>minMaxNormalize([0, Infinity])\<close> is
  \<^verbatim>\<open>[0, NaN]\<close>, the second output being \<^verbatim>\<open>Infinity / Infinity\<close>.
\<close>

theorem minMaxNormalize_counterexample:
  "\<not> (\<forall>values. values \<noteq> [] \<longrightarrow> (\<forall>i < length values. inUnit (minMaxNormalize values ! i)))"
proof
  assume "\<forall>values. values \<noteq> [] \<longrightarrow> (\<forall>i < length values. inUnit (minMaxNormalize values ! i))"
  hence "inUnit (minMaxNormalize [Num 0, PInf] ! 1)" by simp
  moreover have "minMaxNormalize [Num 0, PInf] = [Num 0, NaN]"
    by (simp add: minMaxNormalize_def math_min_def math_max_def js_min2_def js_max2_def js_eq_def
        js_sub_def)
  ultimately show False by (simp add: inUnit_def)
qed

text \<open>
  Claim C5, amended. For every list of numbers, \<open>minMaxNormalize\<close> returns a list of the
  same length; when \<^verbatim>\<open>max === min\<close> every output is exactly 0.5, as for every constant
  series of a finite number, a single element included; and when the list holds finite
  numbers whose range \<^verbatim>\<open>max - min\<close> is finite as computed (it does not overflow), every
  output is a number of \<open>[0,1]\<close>. \<^verbatim>\<open>minMaxNormalize([1,2,3,4])\<close> is \<open>[0, 1/3, 2/3, 1]\<close>
  with the doubles nearest to \<open>1/3\<close> and \<open>2/3\<close>, and \<^verbatim>\<open>minMaxNormalize([5,5,5])\<close> is
  \<open>[0.5, 0.5, 0.5]\<close>.
\<close>

theorem minMaxNormalize_spec:
  "length (minMaxNormalize values) = length values \<and>
   (js_eq (math_max values) (math_min values) \<longrightarrow>
      (\<forall>i < length values. minMaxNormalize values ! i = Num (1 / 2))) \<and>
   ((\<forall>v \<in> set values. isFiniteDouble v) \<and> isFinite (js_sub (math_max values) (math_min values)) \<longrightarrow>
      (\<forall>i < length values. inUnit (minMaxNormalize values ! i))) \<and>
   (isFiniteDouble c \<and> 0 < n \<longrightarrow> minMaxNormalize (replicate n c) = replicate n (Num (1 / 2))) \<and>
   minMaxNormalize [Num 1, Num 2, Num 3, Num 4] = [Num 0, rnd (1 / 3), rnd (2 / 3), Num 1] \<and>
   minMaxNormalize [Num 5, Num 5, Num 5] = [Num (1 / 2), Num (1 / 2), Num (1 / 2)]"
proof -
  have "minMaxNormalize (replicate n c) = replicate n (Num (1 / 2))" if c: "isFiniteDouble c" and n: "0 < n"
  proof -
    from c obtain a where a: "c = Num a" by (auto simp: isFiniteDouble_iff)
    have ne: "replicate n c \<noteq> []" using n by simp
    have fin: "\<forall>v \<in> set (replicate n c). isFinite v" by (simp add: a)
    have "the_num ` set (replicate n c) = {a}" using n by (simp add: a)
    hence "math_min (replicate n c) = Num a" "math_max (replicate n c) = Num a"
      using math_min_finite [OF ne fin] math_max_finite [OF ne fin] by simp_all
    thus ?thesis by (simp add: minMaxNormalize_def js_eq_def map_replicate_const)
  qed
  moreover have "minMaxNormalize [Num 1, Num 2, Num 3, Num 4] = [Num 0, rnd (1 / 3), rnd (2 / 3), Num 1]"
    by (simp add: minMaxNormalize_def math_min_def math_max_def js_min2_def js_max2_def js_eq_def)
  moreover have "minMaxNormalize [Num 5, Num 5, Num 5] = [Num (1 / 2), Num (1 / 2), Num (1 / 2)]"
    by (simp add: minMaxNormalize_def math_min_def math_max_def js_min2_def js_max2_def js_eq_def)
  ultimately show ?thesis
    using minMaxNormalize_inUnit [of "values"] by (simp add: minMaxNormalize_nth)
qed

subsection \<open>Distances and the closeness coefficient\<close>




section \<open>TOPSIS ranker\<close>












lemma dbl_numeral [simp]: "numeral k < (2::int) ^ 53 \<Longrightarrow> numeral k \<in> dbl"
  using dbl_int [of "numeral k"] by simp

lemma dbl_one [simp]: "1 \<in> dbl"
  using dbl_int [of 1] by simp

theorem minMaxNormalize_spec_witness:
  "inUnit (minMaxNormalize [Num 1, Num 2, Num 3, Num 4] ! 1) \<and>
   minMaxNormalize [Num 7] ! 0 = Num (1 / 2) \<and>
   minMaxNormalize (replicate 2 (Num 5)) = replicate 2 (Num (1 / 2))"
proof -
  have "\<forall>v \<in> set [Num 1, Num 2, Num 3, Num 4]. isFiniteDouble v"
    by (simp add: isFiniteDouble_def)
  moreover have "isFinite (js_sub (math_max [Num 1, Num 2, Num 3, Num 4])
      (math_min [Num 1, Num 2, Num 3, Num 4]))"
    by (simp add: math_min_def math_max_def js_min2_def js_max2_def)
  moreover have "(1::nat) < length [Num 1, Num 2, Num 3, Num 4]" by simp
  ultimately have 1: "inUnit (minMaxNormalize [Num 1, Num 2, Num 3, Num 4] ! 1)"
    using minMaxNormalize_spec [of "[Num 1, Num 2, Num 3, Num 4]"] by blast
  have "js_eq (math_max [Num 7]) (math_min [Num 7])"
    by (simp add: math_min_def math_max_def js_min2_def js_max2_def js_eq_def)
  hence 2: "minMaxNormalize [Num 7] ! 0 = Num (1 / 2)"
    using minMaxNormalize_spec [of "[Num 7]"] by simp
  have "isFiniteDouble (Num 5) \<and> (0::nat) < 2" by (simp add: isFiniteDouble_def)
  hence 3: "minMaxNormalize (replicate 2 (Num 5)) = replicate 2 (Num (1 / 2))"
    using minMaxNormalize_spec [of _ "Num 5" 2] by blast
  from 1 2 3 show ?thesis by blast
qed

subsection \<open>The comparator on finite scores\<close>

lemma rnd_diff_sign:
  assumes "u \<in> dbl" "v \<in> dbl"
  shows "js_lt (Num 0) (rnd (v - u)) \<longleftrightarrow> u < v"
    and "js_lt (rnd (v - u)) (Num 0) \<longleftrightarrow> v < u"
    and "is_zero (rnd (v - u)) \<longleftrightarrow> u = v"
proof -
  have pos: "js_lt (Num 0) (rnd (v - u)) \<and> \<not> js_lt (rnd (v - u)) (Num 0) \<and> \<not> is_zero (rnd (v - u))"
    if "u < v"
    using rnd_diff_pos [OF assms that] by auto
  have neg: "js_lt (rnd (v - u)) (Num 0) \<and> \<not> js_lt (Num 0) (rnd (v - u)) \<and> \<not> is_zero (rnd (v - u))"
    if "v < u"
  proof -
    from dbl_diff_ge_tiny [OF assms(2,1) that] have "v - u \<le> - tiny" by simp
    from rnd_le [OF dbl_minus [OF dbl_tiny] this] show ?thesis
      using tiny_pos by (auto simp: js_le_Num_right)
  qed
  have eq: "is_zero (rnd (v - u)) \<and> \<not> js_lt (Num 0) (rnd (v - u)) \<and> \<not> js_lt (rnd (v - u)) (Num 0)"
    if "u = v"
    using that by simp
  show "js_lt (Num 0) (rnd (v - u)) \<longleftrightarrow> u < v" using pos neg eq by (cases u v rule: linorder_cases) auto
  show "js_lt (rnd (v - u)) (Num 0) \<longleftrightarrow> v < u" using pos neg eq by (cases u v rule: linorder_cases) auto
  show "is_zero (rnd (v - u)) \<longleftrightarrow> u = v" using pos neg eq by (cases u v rule: linorder_cases) auto
qed

lemma compareFn_Num:
  assumes "getValue a f = Num u" "u \<in> dbl" "getValue b f = Num v" "v \<in> dbl"
  shows "js_lt (Num 0) (compareFn f a b) \<longleftrightarrow> u < v"
    and "js_lt (compareFn f a b) (Num 0) \<longleftrightarrow> v < u"
    and "is_zero (compareFn f a b) \<longleftrightarrow> u = v"
    and "compareFn f a b \<noteq> NaN"
  using rnd_diff_sign [OF assms(2,4)] by (simp_all add: compareFn_def assms(1,3))

lemma compareFn_fin:
  assumes "isFiniteDouble (getValue a f)" "isFiniteDouble (getValue b f)"
  shows "js_lt (Num 0) (compareFn f a b) \<longleftrightarrow> the_num (getValue a f) < the_num (getValue b f)"
    and "js_lt (compareFn f a b) (Num 0) \<longleftrightarrow> the_num (getValue b f) < the_num (getValue a f)"
    and "is_zero (compareFn f a b) \<longleftrightarrow> the_num (getValue a f) = the_num (getValue b f)"
    and "compareFn f a b \<noteq> NaN"
proof -
  from assms obtain u v where uv: "getValue a f = Num u" "u \<in> dbl" "getValue b f = Num v" "v \<in> dbl"
    unfolding isFiniteDouble_iff by blast
  show "js_lt (Num 0) (compareFn f a b) \<longleftrightarrow> the_num (getValue a f) < the_num (getValue b f)"
    and "js_lt (compareFn f a b) (Num 0) \<longleftrightarrow> the_num (getValue b f) < the_num (getValue a f)"
    and "is_zero (compareFn f a b) \<longleftrightarrow> the_num (getValue a f) = the_num (getValue b f)"
    and "compareFn f a b \<noteq> NaN"
    using compareFn_Num [OF uv] by (simp_all add: uv)
qed

lemma consistent_compareFn:
  assumes "\<forall>y \<in> set xs. isFiniteDouble (getValue y f)"
  shows "consistentComparator (compareFn f) xs"
  unfolding consistentComparator_def
proof (intro conjI ballI impI)
  fix a b assume "a \<in> set xs" "b \<in> set xs"
  with assms show "compareFn f a b \<noteq> NaN" by (simp add: compareFn_fin)
next
  fix a assume "a \<in> set xs"
  with assms show "is_zero (compareFn f a a)" by (simp add: compareFn_fin)
next
  fix a b assume "a \<in> set xs" "b \<in> set xs" "is_zero (compareFn f a b)"
  with assms show "is_zero (compareFn f b a)" by (simp add: compareFn_fin)
next
  fix a b c assume "a \<in> set xs" "b \<in> set xs" "c \<in> set xs"
    "is_zero (compareFn f a b) \<and> is_zero (compareFn f b c)"
  with assms show "is_zero (compareFn f a c)" by (simp add: compareFn_fin)
next
  fix a b c assume "a \<in> set xs" "b \<in> set xs" "c \<in> set xs"
    "js_lt (compareFn f a b) (Num 0) \<and> js_lt (compareFn f b c) (Num 0)"
  with assms show "js_lt (compareFn f a c) (Num 0)" by (simp add: compareFn_fin)
next
  fix a b c assume "a \<in> set xs" "b \<in> set xs" "c \<in> set xs"
    "js_lt (Num 0) (compareFn f a b) \<and> js_lt (Num 0) (compareFn f b c)"
  with assms show "js_lt (Num 0) (compareFn f a c)" by (simp add: compareFn_fin)
qed

lemma set_insertSorted: "set (insertSorted cmp x ys) = insert x (set ys)"
  using mset_insertSorted [of cmp x ys] by (metis set_mset_mset set_mset_add_mset_insert)

lemma descending_insertSorted:
  assumes "\<forall>y \<in> set (x # ys). isFiniteDouble (getValue y f)" and "descending f ys"
  shows "descending f (insertSorted (compareFn f) x ys)"
  using assms
proof (induction ys)
  case Nil
  then show ?case by (simp add: descending_def)
next
  case (Cons y ys)
  from Cons.prems(1) obtain u v where u: "getValue x f = Num u" "u \<in> dbl"
    and v: "getValue y f = Num v" "v \<in> dbl"
    by (auto simp: isFiniteDouble_iff)
  note cmp = compareFn_Num(1) [OF u v]
  show ?case
  proof (cases "u < v")
    case True
    from Cons have d: "descending f (insertSorted (compareFn f) x ys)"
      by (simp add: descending_def)
    with True u v Cons.prems(2) show ?thesis
      by (auto simp: descending_def cmp set_insertSorted)
  next
    case False
    have "\<exists>w. getValue z f = Num w" if "z \<in> set ys" for z
      using that Cons.prems(1) by (auto simp: isFiniteDouble_iff)
    with False u v Cons.prems(2) show ?thesis
      by (fastforce simp: descending_def cmp)
  qed
qed

lemma descending_foldr:
  assumes "\<forall>y \<in> set xs. isFiniteDouble (getValue y f)"
  shows "descending f (foldr (insertSorted (compareFn f)) xs [])"
  using assms
proof (induction xs)
  case Nil
  then show ?case by (simp add: descending_def)
next
  case (Cons x xs)
  then have "descending f (foldr (insertSorted (compareFn f)) xs [])"
    by simp
  moreover have "set (foldr (insertSorted (compareFn f)) xs []) = set xs"
    by (induction xs) (simp_all add: set_insertSorted)
  with Cons.prems
  have "\<forall>y \<in> set (x # foldr (insertSorted (compareFn f)) xs []). isFiniteDouble (getValue y f)"
    by simp
  ultimately have "descending f (insertSorted (compareFn f) x (foldr (insertSorted (compareFn f)) xs []))"
    by (rule descending_insertSorted [rotated])
  then show ?case
    by simp
qed

lemma descending_sortBy:
  assumes "\<forall>y \<in> set xs. isFiniteDouble (getValue y f)"
  shows "descending f (sortBy impl (compareFn f) xs)"
  using descending_foldr [OF assms] consistent_compareFn [OF assms] by (simp add: sortBy_def)

lemma classifyABC_descending:
  assumes "\<forall>y \<in> set data. isFiniteDouble (getValue y f)"
  shows "descending f (classifyABC impl data th f)"
proof -
  have "descending f (sortBy impl (compareFn f) data)"
    using assms by (rule descending_sortBy)
  then show ?thesis
    unfolding descending_def sorted_wrt_iff_nth_less
    by (simp add: classifyABC_length length_sortBy classifyABC_getValue)
qed

lemma descending_no_NaN:
  assumes "descending f xs" "2 \<le> length xs" "x \<in> set xs"
  shows "getValue x f \<noteq> NaN"
proof -
  from assms(3) obtain i where i: "i < length xs" "x = xs ! i" by (auto simp: in_set_conv_nth)
  have le: "js_le (getValue (xs ! k) f) (getValue (xs ! j) f)" if "j < k" "k < length xs" for j k
    using assms(1) that unfolding descending_def sorted_wrt_iff_nth_less by blast
  have nn: "a \<noteq> NaN \<and> b \<noteq> NaN" if "js_le a b" for a b
    using that by (cases a; cases b) simp_all
  show ?thesis
  proof (cases "i = 0")
    case True
    from le [of 0 1] assms(2) nn show ?thesis by (auto simp: i True)
  next
    case False
    from le [of 0 i] i False nn show ?thesis by auto
  qed
qed

lemma classifyABC_scores:
  "mset (map (\<lambda>x. getValue x f) (classifyABC impl data th f)) = mset (map (\<lambda>x. getValue x f) data)"
proof -
  have "map (\<lambda>x. getValue x f) (classifyABC impl data th f) =
        map (\<lambda>x. getValue x f) (sortBy impl (compareFn f) data)"
    by (rule nth_equalityI)
      (simp_all add: classifyABC_length length_sortBy classifyABC_getValue)
  thus ?thesis by (simp add: mset_sortBy)
qed

subsection \<open>The rank thresholds\<close>

lemma classOf_cases:
  "(js_lt (Num (real i)) a \<longrightarrow> classOf a b i = ClassA) \<and>
   (\<not> js_lt (Num (real i)) a \<and> js_lt (Num (real i)) b \<longrightarrow> classOf a b i = ClassB) \<and>
   (\<not> js_lt (Num (real i)) a \<and> \<not> js_lt (Num (real i)) b \<longrightarrow> classOf a b i = ClassC)"
  by (simp add: classOf_def)

lemma js_le_trans: "js_le x y \<Longrightarrow> js_le y z \<Longrightarrow> js_le x z"
  by (cases x; cases y; cases z) simp_all

lemma js_lt_le_trans: "js_lt x y \<Longrightarrow> js_le y z \<Longrightarrow> js_lt x z"
  by (cases x; cases y; cases z) simp_all

lemma not_js_lt: "y \<noteq> NaN \<Longrightarrow> \<not> js_lt (Num a) y \<longleftrightarrow> js_le y (Num a)"
  by (cases y) auto

lemma js_le_refl_iff: "js_le x x \<longleftrightarrow> x \<noteq> NaN"
  by (cases x) simp_all

lemma js_le_PInf [simp]: "js_le x PInf \<longleftrightarrow> x \<noteq> NaN"
  by (cases x) simp_all

lemma js_le_NInf [simp]: "js_le NInf y \<longleftrightarrow> y \<noteq> NaN"
  by (cases y) simp_all

lemma rank_of_mono:
  assumes "js_le x y" "0 < n"
  shows "js_le (js_floor (js_div (js_mul (Num n) x) (Num 100)))
               (js_floor (js_div (js_mul (Num n) y) (Num 100)))"
proof -
  have mul: "js_le (js_mul (Num n) x) (js_mul (Num n) y)"
    using assms by (cases x; cases y) (simp_all add: inf_of_sign_def rnd_mono mult_left_mono)
  have div: "js_le (js_div u (Num 100)) (js_div v (Num 100))" if "js_le u v" for u v
    using that by (cases u; cases v) (simp_all add: inf_of_sign_def rnd_mono divide_right_mono)
  have floor: "js_le (js_floor u) (js_floor v)" if "js_le u v" for u v
    using that by (cases u; cases v) (simp_all add: floor_mono)
  from floor [OF div [OF mul]] show ?thesis .
qed

lemma rank_thresholds:
  assumes A: "isFiniteDouble (thr_A th)" and B: "isFiniteDouble (thr_B th)"
    and nonneg: "js_le (Num 0) (thr_B th)" and n: "0 < n"
  shows "js_le (idxA n th) (idxB n th)"
proof -
  from A B obtain a b where a: "thr_A th = Num a" "a \<in> dbl" and b: "thr_B th = Num b"
    unfolding isFiniteDouble_iff by blast
  have "a \<le> a + b" using nonneg by (simp add: b)
  from rnd_ge [OF a(2) this] have "js_le (thr_A th) (js_add (thr_A th) (thr_B th))"
    by (simp add: a b)
  from rank_of_mono [OF this, of "real n"] n show ?thesis
    by (simp add: idxA_def idxB_def)
qed

lemma classOf_intervals:
  assumes "js_le a b"
  shows "(js_lt (Num (real i)) a \<longrightarrow> classOf a b i = ClassA) \<and>
         (js_le a (Num (real i)) \<and> js_lt (Num (real i)) b \<longrightarrow> classOf a b i = ClassB) \<and>
         (js_le b (Num (real i)) \<longrightarrow> classOf a b i = ClassC)"
proof -
  from assms have nn: "a \<noteq> NaN" "b \<noteq> NaN" by (cases a; cases b; simp)+
  have lt: "js_lt (Num (real i)) y \<longleftrightarrow> \<not> js_le y (Num (real i))" if "y \<noteq> NaN" for y
    using that by (cases y) auto
  have "js_le a (Num (real i))" if "js_le b (Num (real i))"
    using js_le_trans [OF assms that] .
  thus ?thesis by (auto simp: classOf_def lt [OF nn(1)] lt [OF nn(2)])
qed

lemma default_idx:
  "idxA 10 defaultThresholds = Num 2" "idxB 10 defaultThresholds = Num 5"
  by (simp_all add: idxA_def idxB_def defaultThresholds_def)

lemma ten_classes:
  assumes "length data = 10"
  shows "map Class (classifyABC impl data defaultThresholds ''TOPSIS_Score'') =
    map Some [ClassA, ClassA, ClassB, ClassB, ClassB, ClassC, ClassC, ClassC, ClassC, ClassC]"
proof (rule nth_equalityI)
  show "length (map Class (classifyABC impl data defaultThresholds ''TOPSIS_Score'')) =
    length (map Some [ClassA, ClassA, ClassB, ClassB, ClassB, ClassC, ClassC, ClassC, ClassC, ClassC])"
    using assms by (simp add: classifyABC_length)
next
  fix i assume "i < length (map Class (classifyABC impl data defaultThresholds ''TOPSIS_Score''))"
  with assms have i: "i < 10"
    by (simp add: classifyABC_length)
  then have "i \<in> {0, 1, 2, 3, 4, 5, 6, 7, 8, 9}"
    by auto
  then have "Some (classOf (Num 2) (Num 5) i) =
    map Some [ClassA, ClassA, ClassB, ClassB, ClassB, ClassC, ClassC, ClassC, ClassC, ClassC] ! i"
    by (auto simp: classOf_def)
  with assms i
  show "map Class (classifyABC impl data defaultThresholds ''TOPSIS_Score'') ! i =
    map Some [ClassA, ClassA, ClassB, ClassB, ClassB, ClassC, ClassC, ClassC, ClassC, ClassC] ! i"
    by (simp add: classifyABC_length classifyABC_nth Let_def default_idx)
qed

section \<open>Classifier\<close>

text \<open>
  Claim C3, as stated, has the items sorted by the score, descending, for every item
  list. A score can be \<^verbatim>\<open>NaN\<close> (\<open>calculateTOPSIS\<close> writes it), and \<^verbatim>\<open>NaN\<close> is
  neither above nor below any number: of an item with score 1 and an item with score
  \<^verbatim>\<open>NaN\<close> no arrangement is descending, whatever the sort of the implementation does
  with the inconsistent comparator.
\<close>

theorem classifyABC_counterexample:
  "\<forall>impl. \<not> descending ''TOPSIS_Score'' (classifyABC impl nanScored defaultThresholds ''TOPSIS_Score'')"
proof (intro allI notI)
  fix impl
  let ?out = "classifyABC impl nanScored defaultThresholds ''TOPSIS_Score''"
  assume d: "descending ''TOPSIS_Score'' ?out"
  have "2 \<le> length ?out" by (simp add: classifyABC_length nanScored_def)
  from descending_no_NaN [OF d this]
  have "\<forall>x \<in> set ?out. getValue x ''TOPSIS_Score'' \<noteq> NaN" by blast
  hence "NaN \<notin> set (map (\<lambda>x. getValue x ''TOPSIS_Score'') ?out)" by force
  moreover have "set (map (\<lambda>x. getValue x ''TOPSIS_Score'') ?out) =
      set (map (\<lambda>x. getValue x ''TOPSIS_Score'') nanScored)"
    using classifyABC_scores [of "''TOPSIS_Score''" impl nanScored defaultThresholds]
    by (metis set_mset_mset)
  moreover have "NaN \<in> set (map (\<lambda>x. getValue x ''TOPSIS_Score'') nanScored)"
    by (simp add: nanScored_def getValue_def)
  ultimately show False by simp
qed

text \<open>
  Claim C3, amended. For every item list, thresholds and score field, \<open>classifyABC\<close>
  returns the items rearranged, in descending order of that score field when every score
  is a finite number. With \<open>n\<close> the item count, \<open>idxA = floor(n*A/100)\<close> and
  \<open>idxB = floor(n*(A+B)/100)\<close> as the language computes them, the item at rank \<open>i\<close> gets
  class A when \<open>i < idxA\<close>, else B when \<open>i < idxB\<close>, else C; for finite thresholds with
  \<open>B \<ge> 0\<close> these are the rank positions \<open>[0, idxA)\<close> for A, \<open>[idxA, idxB)\<close> for B and
  \<open>[idxB, n)\<close> for C. The class is written to the field Class when the score field is the
  crisp TOPSIS score and to Fuzzy_Class when it is the fuzzy score. On 10 items with the
  thresholds \<open>{A:20, B:30, C:50}\<close> the ranks 0-1 get A, 2-4 get B and 5-9 get C.
\<close>

theorem classifyABC_spec:
  "length (classifyABC impl data th f) = length data \<and>
   mset (map eraseClass (classifyABC impl data th f)) = mset (map eraseClass data) \<and>
   ((\<forall>y \<in> set data. isFiniteDouble (getValue y f)) \<longrightarrow> descending f (classifyABC impl data th f)) \<and>
   (\<forall>i < length data.
      (f = ''TOPSIS_Score'' \<longrightarrow>
         Class (classifyABC impl data th f ! i) =
           Some (classOf (idxA (length data) th) (idxB (length data) th) i)) \<and>
      (f = ''Fuzzy_TOPSIS_Score'' \<longrightarrow>
         Fuzzy_Class (classifyABC impl data th f ! i) =
           Some (classOf (idxA (length data) th) (idxB (length data) th) i)) \<and>
      (js_lt (Num (real i)) (idxA (length data) th) \<longrightarrow>
         classOf (idxA (length data) th) (idxB (length data) th) i = ClassA) \<and>
      (\<not> js_lt (Num (real i)) (idxA (length data) th) \<and>
       js_lt (Num (real i)) (idxB (length data) th) \<longrightarrow>
         classOf (idxA (length data) th) (idxB (length data) th) i = ClassB) \<and>
      (\<not> js_lt (Num (real i)) (idxA (length data) th) \<and>
       \<not> js_lt (Num (real i)) (idxB (length data) th) \<longrightarrow>
         classOf (idxA (length data) th) (idxB (length data) th) i = ClassC)) \<and>
   (isFiniteDouble (thr_A th) \<and> isFiniteDouble (thr_B th) \<and> js_le (Num 0) (thr_B th) \<longrightarrow>
      (\<forall>i < length data.
         (js_lt (Num (real i)) (idxA (length data) th) \<longrightarrow>
            classOf (idxA (length data) th) (idxB (length data) th) i = ClassA) \<and>
         (js_le (idxA (length data) th) (Num (real i)) \<and>
          js_lt (Num (real i)) (idxB (length data) th) \<longrightarrow>
            classOf (idxA (length data) th) (idxB (length data) th) i = ClassB) \<and>
         (js_le (idxB (length data) th) (Num (real i)) \<longrightarrow>
            classOf (idxA (length data) th) (idxB (length data) th) i = ClassC))) \<and>
   (length data = 10 \<longrightarrow>
      map Class (classifyABC impl data defaultThresholds ''TOPSIS_Score'') =
      map Some [ClassA, ClassA, ClassB, ClassB, ClassB, ClassC, ClassC, ClassC, ClassC, ClassC])"
proof -
  have "mset (map eraseClass (classifyABC impl data th f)) = mset (map eraseClass data)"
    by (simp add: classifyABC_eraseClass mset_sortBy)
  moreover have "\<forall>i < length data.
      (f = ''TOPSIS_Score'' \<longrightarrow>
         Class (classifyABC impl data th f ! i) =
           Some (classOf (idxA (length data) th) (idxB (length data) th) i)) \<and>
      (f = ''Fuzzy_TOPSIS_Score'' \<longrightarrow>
         Fuzzy_Class (classifyABC impl data th f ! i) =
           Some (classOf (idxA (length data) th) (idxB (length data) th) i))"
    by (simp add: classifyABC_nth Let_def)
  moreover have "\<forall>i < length data.
         (js_lt (Num (real i)) (idxA (length data) th) \<longrightarrow>
            classOf (idxA (length data) th) (idxB (length data) th) i = ClassA) \<and>
         (js_le (idxA (length data) th) (Num (real i)) \<and>
          js_lt (Num (real i)) (idxB (length data) th) \<longrightarrow>
            classOf (idxA (length data) th) (idxB (length data) th) i = ClassB) \<and>
         (js_le (idxB (length data) th) (Num (real i)) \<longrightarrow>
            classOf (idxA (length data) th) (idxB (length data) th) i = ClassC)"
    if "isFiniteDouble (thr_A th) \<and> isFiniteDouble (thr_B th) \<and> js_le (Num 0) (thr_B th)"
  proof (intro allI impI)
    fix i assume "i < length data"
    hence "0 < length data" by (cases data) simp_all
    with that have "js_le (idxA (length data) th) (idxB (length data) th)"
      by (intro rank_thresholds) simp_all
    from classOf_intervals [OF this, of i]
    show "(js_lt (Num (real i)) (idxA (length data) th) \<longrightarrow>
            classOf (idxA (length data) th) (idxB (length data) th) i = ClassA) \<and>
         (js_le (idxA (length data) th) (Num (real i)) \<and>
          js_lt (Num (real i)) (idxB (length data) th) \<longrightarrow>
            classOf (idxA (length data) th) (idxB (length data) th) i = ClassB) \<and>
         (js_le (idxB (length data) th) (Num (real i)) \<longrightarrow>
            classOf (idxA (length data) th) (idxB (length data) th) i = ClassC)" .
  qed
  ultimately show ?thesis
    using classifyABC_length [of impl data th f] classifyABC_descending [of data f impl th]
      classOf_cases [of _ "idxA (length data) th" "idxB (length data) th"] ten_classes [of data impl]
    by blast
qed

lemma dbl_fractions [simp]:
  "1 / 2 \<in> dbl" "1 / 4 \<in> dbl" "3 / 4 \<in> dbl" "1 / 8 \<in> dbl"
  using dbl_dyadic [of 1 1] dbl_dyadic [of 1 2] dbl_dyadic [of 3 2] dbl_dyadic [of 1 3]
  by simp_all

lemma scoredData_finite: "\<forall>y \<in> set scoredData. isFiniteDouble (getValue y ''TOPSIS_Score'')"
  by (simp add: scoredData_def getValue_def isFiniteDouble_def)

lemma scoredData_sorted:
  "sortBy impl (compareFn ''TOPSIS_Score'') scoredData = [scoredData ! 1, scoredData ! 2, scoredData ! 0]"
proof -
  have "foldr (insertSorted (compareFn ''TOPSIS_Score'')) scoredData [] =
      [scoredData ! 1, scoredData ! 2, scoredData ! 0]"
    by (simp add: scoredData_def compareFn_fin getValue_def isFiniteDouble_def)
  thus ?thesis using consistent_compareFn [OF scoredData_finite] by (simp add: sortBy_def)
qed

lemma half_idx:
  "idxA 3 halfThresholds = Num 1" "idxB 3 halfThresholds = Num 2"
proof -
  have "rnd (9 / 4) = Num (9 / 4)" using rnd_dyadic [of 9 2] by simp
  moreover have "\<lfloor>(9::real) / 4\<rfloor> = 2" "\<lfloor>(3::real) / 2\<rfloor> = 1" by linarith+
  ultimately show "idxA 3 halfThresholds = Num 1" "idxB 3 halfThresholds = Num 2"
    by (simp_all add: idxA_def idxB_def halfThresholds_def)
qed

theorem classifyABC_spec_witness:
  "descending ''TOPSIS_Score'' (classifyABC inputOrder scoredData halfThresholds ''TOPSIS_Score'') \<and>
   Class (classifyABC inputOrder scoredData halfThresholds ''TOPSIS_Score'' ! 0) = Some ClassA \<and>
   Class (classifyABC inputOrder scoredData halfThresholds ''TOPSIS_Score'' ! 1) = Some ClassB \<and>
   Class (classifyABC inputOrder scoredData halfThresholds ''TOPSIS_Score'' ! 2) = Some ClassC \<and>
   map item_id (classifyABC inputOrder scoredData halfThresholds ''TOPSIS_Score'') = [Num 2, Num 3, Num 1]"
proof -
  let ?out = "classifyABC inputOrder scoredData halfThresholds ''TOPSIS_Score''"
  have len: "length scoredData = 3"
    by (simp add: scoredData_def)
  have th: "isFiniteDouble (thr_A halfThresholds) \<and> isFiniteDouble (thr_B halfThresholds) \<and>
      js_le (Num 0) (thr_B halfThresholds)"
    by (simp add: halfThresholds_def isFiniteDouble_def)
  note spec = classifyABC_spec [of inputOrder scoredData halfThresholds "''TOPSIS_Score''"]
  from spec scoredData_finite have "descending ''TOPSIS_Score'' ?out"
    by blast
  moreover from spec len have c: "Class (?out ! 0) = Some (classOf (Num 1) (Num 2) 0)"
    "Class (?out ! 1) = Some (classOf (Num 1) (Num 2) 1)"
    "Class (?out ! 2) = Some (classOf (Num 1) (Num 2) 2)"
    by (simp_all add: half_idx)
  from spec th len have "\<forall>i < 3.
         (js_lt (Num (real i)) (Num 1) \<longrightarrow> classOf (Num 1) (Num 2) i = ClassA) \<and>
         (js_le (Num 1) (Num (real i)) \<and> js_lt (Num (real i)) (Num 2) \<longrightarrow>
            classOf (Num 1) (Num 2) i = ClassB) \<and>
         (js_le (Num 2) (Num (real i)) \<longrightarrow> classOf (Num 1) (Num 2) i = ClassC)"
    by (simp add: half_idx)
  hence "classOf (Num 1) (Num 2) 0 = ClassA" "classOf (Num 1) (Num 2) 1 = ClassB"
    "classOf (Num 1) (Num 2) 2 = ClassC"
    by force+
  with c have "Class (?out ! 0) = Some ClassA" "Class (?out ! 1) = Some ClassB"
    "Class (?out ! 2) = Some ClassC" by simp_all
  moreover have "map item_id ?out = [Num 2, Num 3, Num 1]"
    by (simp add: classifyABC_def Let_def scoredData_sorted indexed_def upt_rec)
      (simp add: scoredData_def rawItem_def)
  ultimately show ?thesis
    by blast
qed

subsection \<open>When the fuzzy ranking returns\<close>

lemma orElse_Inherited:
  "orElse p (Own d) = Inherited \<longleftrightarrow> p = Some Inherited"
  "Inherited = orElse p (Own d) \<longleftrightarrow> p = Some Inherited"
  by (cases p; auto)+

lemma fuzzyRow_Inherited:
  assumes "idx < length data"
  shows "Inherited \<in> set (fuzzyRow data t idx) \<longleftrightarrow> \<not> plainLabels t (data ! idx)"
  using assms
  by (auto simp: fuzzyRow_def Let_def criteriaMatrix_def applyFuzzyMappings_nth plainLabels_def
      orElse_Inherited)

lemma fuzzyScore_Inl:
  assumes "idx < length data" "\<not> plainLabels t (data ! idx)"
  shows "fuzzyScore data t idx = Inl TypeError"
  using assms by (simp add: fuzzyScore_def sqSums_Inl fuzzyRow_Inherited)

lemma fuzzyScore_Inr:
  assumes "idx < length data" "plainLabels t (data ! idx)"
  shows "\<exists>s. fuzzyScore data t idx = Inr s"
proof -
  from assms have "Inherited \<notin> set (fuzzyRow data t idx)" by (simp add: fuzzyRow_Inherited)
  from sqSums_Inr [OF this, of "(Num 0, Num 0)"] show ?thesis
    by (auto simp: fuzzyScore_def Let_def split: prod.splits)
qed

lemma mapE_total: "(\<exists>ys. mapE f xs = Inr ys) \<or> (\<exists>e. mapE f xs = Inl e)"
  by (cases "mapE f xs") auto

lemma calculateFuzzyTOPSIS_returns:
  "(\<exists>out. calculateFuzzyTOPSIS data t = Inr out) \<longleftrightarrow> (\<forall>item \<in> set data. plainLabels t item)"
proof
  assume "\<exists>out. calculateFuzzyTOPSIS data t = Inr out"
  then obtain out where out: "calculateFuzzyTOPSIS data t = Inr out" by blast
  show "\<forall>item \<in> set data. plainLabels t item"
  proof
    fix item assume "item \<in> set data"
    then obtain i where i: "i < length data" "item = data ! i" by (auto simp: in_set_conv_nth)
    with out obtain s where "fuzzyScore data t i = Inr s"
      unfolding calculateFuzzyTOPSIS_Inr_iff by blast
    with fuzzyScore_Inl [OF i(1), of t] show "plainLabels t item" by (auto simp: i)
  qed
next
  assume plain: "\<forall>item \<in> set data. plainLabels t item"
  have "\<not> (\<exists>e. calculateFuzzyTOPSIS data t = Inl e)"
    unfolding calculateFuzzyTOPSIS_def mapE_Inl_iff
  proof (clarsimp simp: in_set_conv_nth)
    fix i e assume i: "i < length data"
      and "(case fuzzyScore data t i of Inl e \<Rightarrow> Inl e
            | Inr score \<Rightarrow> Inr ((data ! i) \<lparr> Fuzzy_TOPSIS_Score := Some score \<rparr>)) = Inl e"
    moreover from plain i have "plainLabels t (data ! i)" by simp
    from fuzzyScore_Inr [OF i this] obtain s where "fuzzyScore data t i = Inr s" by blast
    ultimately show False by simp
  qed
  thus "\<exists>out. calculateFuzzyTOPSIS data t = Inr out"
    using mapE_total [of _ "indexed data"] unfolding calculateFuzzyTOPSIS_def by blast
qed

lemma calculateFuzzyTOPSIS_throws:
  "calculateFuzzyTOPSIS data t = Inl TypeError \<longleftrightarrow> (\<exists>item \<in> set data. \<not> plainLabels t item)"
proof -
  have "calculateFuzzyTOPSIS data t = Inl TypeError \<longleftrightarrow> \<not> (\<exists>out. calculateFuzzyTOPSIS data t = Inr out)"
    by (cases "calculateFuzzyTOPSIS data t") (auto intro: error.exhaust)
  thus ?thesis by (simp add: calculateFuzzyTOPSIS_returns)
qed

lemma sampleData_plain: "\<forall>item \<in> set sampleData. plainLabels defaultFuzzyTFN item"
  by (simp add: sampleData_def rawItem_def plainLabels_def getProperty_def defaultFuzzyTFN_def
      objectPrototype_def)

theorem frame_spec_witness:
  "length (classifyABC inputOrder sampleData defaultThresholds ''Fuzzy_TOPSIS_Score'') = 3 \<and>
   map rawAttributes (calculateTOPSIS sampleData unitWeights) = map rawAttributes sampleData \<and>
   Risk (applyMappings sampleData defaultMappingTables ! 1) = ''Low'' \<and>
   (\<exists>out. calculateFuzzyTOPSIS sampleData defaultFuzzyTFN = Inr out \<and>
      map rawAttributes out = map rawAttributes sampleData)"
proof -
  note spec = frame_spec [of sampleData defaultMappingTables sampleWeights unitWeights inputOrder
      defaultThresholds "''Fuzzy_TOPSIS_Score''" defaultFuzzyTFN]
  have len: "length sampleData = 3" "1 < length sampleData"
    by (simp_all add: sampleData_def)
  from spec len(2) have "applyMappings sampleData defaultMappingTables ! 1 = (sampleData ! 1)
        \<lparr> Risk_Score := Risk_Score (applyMappings sampleData defaultMappingTables ! 1),
          Fluctuation_Score := Fluctuation_Score (applyMappings sampleData defaultMappingTables ! 1),
          Consignment_Score := Consignment_Score (applyMappings sampleData defaultMappingTables ! 1),
          Size_Score := Size_Score (applyMappings sampleData defaultMappingTables ! 1) \<rparr>"
    by blast
  from arg_cong [OF this, of Risk]
  have "Risk (applyMappings sampleData defaultMappingTables ! 1) = Risk (sampleData ! 1)"
    by simp
  moreover have "Risk (sampleData ! 1) = ''Low''"
    by (simp add: sampleData_def rawItem_def)
  ultimately have 1: "Risk (applyMappings sampleData defaultMappingTables ! 1) = ''Low''"
    by simp
  from sampleData_plain obtain out where out: "calculateFuzzyTOPSIS sampleData defaultFuzzyTFN = Inr out"
    using calculateFuzzyTOPSIS_returns [of sampleData defaultFuzzyTFN] by blast
  with spec have "map rawAttributes out = map rawAttributes sampleData" by blast
  with out have 2: "\<exists>out. calculateFuzzyTOPSIS sampleData defaultFuzzyTFN = Inr out \<and>
      map rawAttributes out = map rawAttributes sampleData" by blast
  from spec len(1) 1 2 show ?thesis
    by simp
qed

end
